theory Spec2Isabelle
  imports Main "HOL-Library.AList"
begin

section \<open>The device registry of AVRA (device.c)\<close>

subsection \<open>Device descriptors\<close>

text \<open>
  The capability flags \<open>DF_*\<close> are macros of device.h, whose bit values device.c never
  inspects. The \<open>flag\<close> word of a descriptor is kept as the list of the flag names the
  table ORs together, in the order the table writes them (\<open>.flag = 0\<close> is the empty list).
\<close>

datatype dev_flag = DF_NO_MUL | DF_NO_JMP | DF_NO_LPM | DF_NO_ELPM | DF_NO_SPM | DF_NO_ESPM | DF_NO_MOVW | DF_NO_BREAK | DF_NO_EICALL | DF_NO_EIJMP | DF_AVR8L | DF_TINY1X | DF_NO_XREG | DF_NO_YREG | DF_NO_LPM_X | DF_NO_ELPM_X

text \<open>
  \<open>struct device\<close>: a \<open>NULL\<close> name is \<open>None\<close>. The table's sizes all lie far below
  \<open>2^31\<close>, so the C integers are modelled as \<open>int\<close>.
\<close>

record device =
  name :: "string option"
  flash_size :: int
  ram_start :: int
  ram_size :: int
  eeprom_size :: int
  flag :: "dev_flag list"

definition DEV_VAR :: string where "DEV_VAR = ''__DEVICE__''"
definition FLASH_VAR :: string where "FLASH_VAR = ''__FLASH_SIZE__''"
definition EEPROM_VAR :: string where "EEPROM_VAR = ''__EEPROM_SIZE__''"
definition RAM_VAR :: string where "RAM_VAR = ''__RAM_SIZE__''"
definition DEV_PREFIX :: string where "DEV_PREFIX = ''__''"
definition DEV_SUFFIX :: string where "DEV_SUFFIX = ''__''"
definition DEF_DEV_NAME :: string where "DEF_DEV_NAME = ''DEFAULT''"
definition MAX_DEV_NAME :: nat where "MAX_DEV_NAME = 32"

text \<open>\<open>device_list[]\<close>, entry for entry (flash sizes are in words).\<close>

definition device_list :: "device list" where
  "device_list = [
  \<lparr>name = None, flash_size = 4194304, ram_start = 96, ram_size = 8388608, eeprom_size = 65536,
    flag = []\<rparr>,
  \<lparr>name = Some ''ATtiny4'', flash_size = 256, ram_start = 64, ram_size = 32, eeprom_size = 0,
    flag = [DF_NO_MUL, DF_NO_JMP, DF_NO_LPM, DF_NO_ELPM, DF_NO_SPM, DF_NO_ESPM, DF_NO_MOVW, DF_NO_BREAK, DF_NO_EICALL, DF_NO_EIJMP, DF_AVR8L]\<rparr>,
  \<lparr>name = Some ''ATtiny5'', flash_size = 256, ram_start = 64, ram_size = 32, eeprom_size = 0,
    flag = [DF_NO_MUL, DF_NO_JMP, DF_NO_LPM, DF_NO_ELPM, DF_NO_SPM, DF_NO_ESPM, DF_NO_MOVW, DF_NO_BREAK, DF_NO_EICALL, DF_NO_EIJMP, DF_AVR8L]\<rparr>,
  \<lparr>name = Some ''ATtiny9'', flash_size = 512, ram_start = 64, ram_size = 32, eeprom_size = 0,
    flag = [DF_NO_MUL, DF_NO_JMP, DF_NO_LPM, DF_NO_ELPM, DF_NO_SPM, DF_NO_ESPM, DF_NO_MOVW, DF_NO_BREAK, DF_NO_EICALL, DF_NO_EIJMP, DF_AVR8L]\<rparr>,
  \<lparr>name = Some ''ATtiny10'', flash_size = 512, ram_start = 64, ram_size = 32, eeprom_size = 0,
    flag = [DF_NO_MUL, DF_NO_JMP, DF_NO_LPM, DF_NO_ELPM, DF_NO_SPM, DF_NO_ESPM, DF_NO_MOVW, DF_NO_BREAK, DF_NO_EICALL, DF_NO_EIJMP, DF_AVR8L]\<rparr>,
  \<lparr>name = Some ''ATtiny11'', flash_size = 512, ram_start = 0, ram_size = 0, eeprom_size = 0,
    flag = [DF_NO_MUL, DF_NO_JMP, DF_TINY1X, DF_NO_XREG, DF_NO_YREG, DF_NO_LPM_X, DF_NO_ELPM, DF_NO_SPM, DF_NO_ESPM, DF_NO_MOVW, DF_NO_BREAK, DF_NO_EICALL, DF_NO_EIJMP]\<rparr>,
  \<lparr>name = Some ''ATtiny12'', flash_size = 512, ram_start = 0, ram_size = 0, eeprom_size = 64,
    flag = [DF_NO_MUL, DF_NO_JMP, DF_TINY1X, DF_NO_XREG, DF_NO_YREG, DF_NO_LPM_X, DF_NO_ELPM, DF_NO_SPM, DF_NO_ESPM, DF_NO_MOVW, DF_NO_BREAK, DF_NO_EICALL, DF_NO_EIJMP]\<rparr>,
  \<lparr>name = Some ''ATtiny13'', flash_size = 512, ram_start = 96, ram_size = 64, eeprom_size = 64,
    flag = [DF_NO_MUL, DF_NO_JMP, DF_NO_ELPM, DF_NO_ESPM, DF_NO_EICALL, DF_NO_EIJMP]\<rparr>,
  \<lparr>name = Some ''ATtiny13A'', flash_size = 512, ram_start = 96, ram_size = 64, eeprom_size = 64,
    flag = [DF_NO_MUL, DF_NO_JMP, DF_NO_ELPM, DF_NO_ESPM, DF_NO_EICALL, DF_NO_EIJMP]\<rparr>,
  \<lparr>name = Some ''ATtiny15'', flash_size = 512, ram_start = 0, ram_size = 0, eeprom_size = 64,
    flag = [DF_NO_MUL, DF_NO_JMP, DF_NO_XREG, DF_NO_YREG, DF_NO_LPM_X, DF_NO_ELPM, DF_NO_SPM, DF_NO_ESPM, DF_NO_MOVW, DF_NO_BREAK, DF_NO_EICALL, DF_NO_EIJMP, DF_TINY1X]\<rparr>,
  \<lparr>name = Some ''ATtiny20'', flash_size = 1024, ram_start = 64, ram_size = 128, eeprom_size = 0,
    flag = [DF_NO_MUL, DF_NO_JMP, DF_NO_EIJMP, DF_NO_EICALL, DF_NO_MOVW, DF_NO_LPM, DF_NO_ELPM, DF_NO_SPM, DF_NO_ESPM, DF_NO_BREAK, DF_AVR8L]\<rparr>,
  \<lparr>name = Some ''ATtiny22'', flash_size = 1024, ram_start = 96, ram_size = 128, eeprom_size = 128,
    flag = [DF_NO_MUL, DF_NO_JMP, DF_NO_LPM_X, DF_NO_ELPM, DF_NO_SPM, DF_NO_ESPM, DF_NO_MOVW, DF_NO_BREAK, DF_NO_EICALL, DF_NO_EIJMP]\<rparr>,
  \<lparr>name = Some ''ATtiny24'', flash_size = 1024, ram_start = 96, ram_size = 128, eeprom_size = 128,
    flag = [DF_NO_MUL, DF_NO_JMP, DF_NO_ELPM, DF_NO_ESPM, DF_NO_EICALL, DF_NO_EIJMP]\<rparr>,
  \<lparr>name = Some ''ATtiny24A'', flash_size = 1024, ram_start = 96, ram_size = 128, eeprom_size = 128,
    flag = [DF_NO_MUL, DF_NO_JMP, DF_NO_ELPM, DF_NO_ESPM, DF_NO_EICALL, DF_NO_EIJMP]\<rparr>,
  \<lparr>name = Some ''ATtiny25'', flash_size = 1024, ram_start = 96, ram_size = 128, eeprom_size = 128,
    flag = [DF_NO_MUL, DF_NO_JMP, DF_NO_ELPM, DF_NO_ESPM, DF_NO_EICALL, DF_NO_EIJMP]\<rparr>,
  \<lparr>name = Some ''ATtiny26'', flash_size = 1024, ram_start = 96, ram_size = 128, eeprom_size = 128,
    flag = [DF_NO_MUL, DF_NO_JMP, DF_NO_ELPM, DF_NO_SPM, DF_NO_ESPM, DF_NO_MOVW, DF_NO_BREAK, DF_NO_EICALL, DF_NO_EIJMP]\<rparr>,
  \<lparr>name = Some ''ATtiny28'', flash_size = 1024, ram_start = 0, ram_size = 0, eeprom_size = 0,
    flag = [DF_NO_MUL, DF_NO_JMP, DF_TINY1X, DF_NO_XREG, DF_NO_YREG, DF_NO_LPM_X, DF_NO_ELPM, DF_NO_SPM, DF_NO_ESPM, DF_NO_MOVW, DF_NO_BREAK, DF_NO_EICALL, DF_NO_EIJMP]\<rparr>,
  \<lparr>name = Some ''ATtiny44'', flash_size = 2048, ram_start = 96, ram_size = 256, eeprom_size = 256,
    flag = [DF_NO_MUL, DF_NO_JMP, DF_NO_ELPM, DF_NO_ESPM, DF_NO_EICALL, DF_NO_EIJMP]\<rparr>,
  \<lparr>name = Some ''ATtiny44A'', flash_size = 2048, ram_start = 96, ram_size = 256, eeprom_size = 256,
    flag = [DF_NO_MUL, DF_NO_JMP, DF_NO_ELPM, DF_NO_ESPM, DF_NO_EICALL, DF_NO_EIJMP]\<rparr>,
  \<lparr>name = Some ''ATtiny45'', flash_size = 2048, ram_start = 96, ram_size = 256, eeprom_size = 256,
    flag = [DF_NO_MUL, DF_NO_JMP, DF_NO_ELPM, DF_NO_ESPM, DF_NO_EICALL, DF_NO_EIJMP]\<rparr>,
  \<lparr>name = Some ''ATtiny48'', flash_size = 2048, ram_start = 256, ram_size = 256, eeprom_size = 64,
    flag = [DF_NO_MUL, DF_NO_JMP, DF_NO_ELPM, DF_NO_ESPM, DF_NO_EICALL, DF_NO_EIJMP]\<rparr>,
  \<lparr>name = Some ''ATtiny84'', flash_size = 4096, ram_start = 96, ram_size = 512, eeprom_size = 512,
    flag = [DF_NO_MUL, DF_NO_JMP, DF_NO_ELPM, DF_NO_ESPM, DF_NO_EICALL, DF_NO_EIJMP]\<rparr>,
  \<lparr>name = Some ''ATtiny85'', flash_size = 4096, ram_start = 96, ram_size = 512, eeprom_size = 512,
    flag = [DF_NO_MUL, DF_NO_JMP, DF_NO_ELPM, DF_NO_ESPM, DF_NO_EICALL, DF_NO_EIJMP]\<rparr>,
  \<lparr>name = Some ''ATtiny88'', flash_size = 4096, ram_start = 256, ram_size = 512, eeprom_size = 64,
    flag = [DF_NO_MUL, DF_NO_JMP, DF_NO_ELPM, DF_NO_ESPM, DF_NO_EICALL, DF_NO_EIJMP]\<rparr>,
  \<lparr>name = Some ''ATtiny261A'', flash_size = 1024, ram_start = 96, ram_size = 128, eeprom_size = 128,
    flag = [DF_NO_MUL, DF_NO_JMP, DF_NO_ELPM, DF_NO_ESPM, DF_NO_EICALL, DF_NO_EIJMP]\<rparr>,
  \<lparr>name = Some ''ATtiny461A'', flash_size = 2048, ram_start = 96, ram_size = 256, eeprom_size = 256,
    flag = [DF_NO_MUL, DF_NO_JMP, DF_NO_ELPM, DF_NO_ESPM, DF_NO_EICALL, DF_NO_EIJMP]\<rparr>,
  \<lparr>name = Some ''ATtiny861A'', flash_size = 4096, ram_start = 96, ram_size = 512, eeprom_size = 512,
    flag = [DF_NO_MUL, DF_NO_JMP, DF_NO_ELPM, DF_NO_ESPM, DF_NO_EICALL, DF_NO_EIJMP]\<rparr>,
  \<lparr>name = Some ''ATtiny2313'', flash_size = 1024, ram_start = 96, ram_size = 128, eeprom_size = 128,
    flag = [DF_NO_MUL, DF_NO_JMP, DF_NO_ELPM, DF_NO_ESPM, DF_NO_EICALL, DF_NO_EIJMP]\<rparr>,
  \<lparr>name = Some ''ATtiny2313A'', flash_size = 1024, ram_start = 96, ram_size = 128, eeprom_size = 128,
    flag = [DF_NO_MUL, DF_NO_JMP, DF_NO_ELPM, DF_NO_ESPM, DF_NO_EICALL, DF_NO_EIJMP]\<rparr>,
  \<lparr>name = Some ''ATtiny4313'', flash_size = 2048, ram_start = 96, ram_size = 256, eeprom_size = 256,
    flag = [DF_NO_MUL, DF_NO_JMP, DF_NO_ELPM, DF_NO_ESPM, DF_NO_EICALL, DF_NO_EIJMP]\<rparr>,
  \<lparr>name = Some ''AT90S1200'', flash_size = 512, ram_start = 0, ram_size = 0, eeprom_size = 64,
    flag = [DF_NO_MUL, DF_NO_JMP, DF_TINY1X, DF_NO_XREG, DF_NO_YREG, DF_NO_LPM, DF_NO_ELPM, DF_NO_SPM, DF_NO_ESPM, DF_NO_MOVW, DF_NO_BREAK, DF_NO_EICALL, DF_NO_EIJMP]\<rparr>,
  \<lparr>name = Some ''AT90S2313'', flash_size = 1024, ram_start = 96, ram_size = 128, eeprom_size = 128,
    flag = [DF_NO_MUL, DF_NO_JMP, DF_NO_LPM_X, DF_NO_ELPM, DF_NO_SPM, DF_NO_ESPM, DF_NO_MOVW, DF_NO_BREAK, DF_NO_EICALL, DF_NO_EIJMP]\<rparr>,
  \<lparr>name = Some ''AT90S2323'', flash_size = 1024, ram_start = 96, ram_size = 128, eeprom_size = 128,
    flag = [DF_NO_MUL, DF_NO_JMP, DF_NO_LPM_X, DF_NO_ELPM, DF_NO_SPM, DF_NO_ESPM, DF_NO_MOVW, DF_NO_BREAK, DF_NO_EICALL, DF_NO_EIJMP]\<rparr>,
  \<lparr>name = Some ''AT90S2333'', flash_size = 1024, ram_start = 96, ram_size = 128, eeprom_size = 128,
    flag = [DF_NO_MUL, DF_NO_JMP, DF_NO_LPM_X, DF_NO_ELPM, DF_NO_SPM, DF_NO_ESPM, DF_NO_MOVW, DF_NO_BREAK, DF_NO_EICALL, DF_NO_EIJMP]\<rparr>,
  \<lparr>name = Some ''AT90S2343'', flash_size = 1024, ram_start = 96, ram_size = 128, eeprom_size = 128,
    flag = [DF_NO_MUL, DF_NO_JMP, DF_NO_LPM_X, DF_NO_ELPM, DF_NO_SPM, DF_NO_ESPM, DF_NO_MOVW, DF_NO_BREAK, DF_NO_EICALL, DF_NO_EIJMP]\<rparr>,
  \<lparr>name = Some ''AT90S4414'', flash_size = 2048, ram_start = 96, ram_size = 256, eeprom_size = 256,
    flag = [DF_NO_MUL, DF_NO_JMP, DF_NO_LPM_X, DF_NO_ELPM, DF_NO_SPM, DF_NO_ESPM, DF_NO_MOVW, DF_NO_BREAK, DF_NO_EICALL, DF_NO_EIJMP]\<rparr>,
  \<lparr>name = Some ''AT90S4433'', flash_size = 2048, ram_start = 96, ram_size = 128, eeprom_size = 256,
    flag = [DF_NO_MUL, DF_NO_JMP, DF_NO_LPM_X, DF_NO_ELPM, DF_NO_SPM, DF_NO_ESPM, DF_NO_MOVW, DF_NO_BREAK, DF_NO_EICALL, DF_NO_EIJMP]\<rparr>,
  \<lparr>name = Some ''AT90S4434'', flash_size = 2048, ram_start = 96, ram_size = 256, eeprom_size = 256,
    flag = [DF_NO_MUL, DF_NO_JMP, DF_NO_LPM_X, DF_NO_ELPM, DF_NO_SPM, DF_NO_ESPM, DF_NO_MOVW, DF_NO_BREAK, DF_NO_EICALL, DF_NO_EIJMP]\<rparr>,
  \<lparr>name = Some ''AT90S8515'', flash_size = 4096, ram_start = 96, ram_size = 512, eeprom_size = 512,
    flag = [DF_NO_MUL, DF_NO_JMP, DF_NO_LPM_X, DF_NO_ELPM, DF_NO_SPM, DF_NO_ESPM, DF_NO_MOVW, DF_NO_BREAK, DF_NO_EICALL, DF_NO_EIJMP]\<rparr>,
  \<lparr>name = Some ''AT90C8534'', flash_size = 4096, ram_start = 96, ram_size = 256, eeprom_size = 512,
    flag = [DF_NO_MUL, DF_NO_JMP, DF_NO_LPM_X, DF_NO_ELPM, DF_NO_SPM, DF_NO_ESPM, DF_NO_MOVW, DF_NO_BREAK, DF_NO_EICALL, DF_NO_EIJMP]\<rparr>,
  \<lparr>name = Some ''AT90S8535'', flash_size = 4096, ram_start = 96, ram_size = 512, eeprom_size = 512,
    flag = [DF_NO_MUL, DF_NO_JMP, DF_NO_LPM_X, DF_NO_ELPM, DF_NO_SPM, DF_NO_ESPM, DF_NO_MOVW, DF_NO_BREAK, DF_NO_EICALL, DF_NO_EIJMP]\<rparr>,
  \<lparr>name = Some ''ATmega8'', flash_size = 4096, ram_start = 96, ram_size = 1024, eeprom_size = 512,
    flag = [DF_NO_JMP, DF_NO_EICALL, DF_NO_EIJMP, DF_NO_ELPM, DF_NO_ESPM]\<rparr>,
  \<lparr>name = Some ''ATmega8A'', flash_size = 4096, ram_start = 96, ram_size = 1024, eeprom_size = 512,
    flag = [DF_NO_JMP, DF_NO_EICALL, DF_NO_EIJMP, DF_NO_ELPM, DF_NO_ESPM]\<rparr>,
  \<lparr>name = Some ''ATmega161'', flash_size = 8192, ram_start = 96, ram_size = 1024, eeprom_size = 512,
    flag = [DF_NO_EICALL, DF_NO_EIJMP, DF_NO_ELPM, DF_NO_ESPM]\<rparr>,
  \<lparr>name = Some ''ATmega162'', flash_size = 8192, ram_start = 256, ram_size = 1024, eeprom_size = 512,
    flag = [DF_NO_EICALL, DF_NO_EIJMP, DF_NO_ELPM, DF_NO_ESPM]\<rparr>,
  \<lparr>name = Some ''ATmega163'', flash_size = 8192, ram_start = 96, ram_size = 1024, eeprom_size = 512,
    flag = [DF_NO_EICALL, DF_NO_EIJMP, DF_NO_ELPM, DF_NO_ESPM]\<rparr>,
  \<lparr>name = Some ''ATmega16'', flash_size = 8192, ram_start = 96, ram_size = 1024, eeprom_size = 512,
    flag = [DF_NO_EICALL, DF_NO_EIJMP, DF_NO_ELPM, DF_NO_ESPM]\<rparr>,
  \<lparr>name = Some ''ATmega323'', flash_size = 16384, ram_start = 96, ram_size = 2048, eeprom_size = 1024,
    flag = [DF_NO_EICALL, DF_NO_EIJMP, DF_NO_ELPM, DF_NO_ESPM]\<rparr>,
  \<lparr>name = Some ''ATmega32'', flash_size = 16384, ram_start = 96, ram_size = 2048, eeprom_size = 1024,
    flag = [DF_NO_EICALL, DF_NO_EIJMP, DF_NO_ELPM, DF_NO_ESPM]\<rparr>,
  \<lparr>name = Some ''ATmega603'', flash_size = 32768, ram_start = 96, ram_size = 4096, eeprom_size = 2048,
    flag = [DF_NO_EICALL, DF_NO_EIJMP, DF_NO_MUL, DF_NO_MOVW, DF_NO_LPM_X, DF_NO_ELPM, DF_NO_SPM, DF_NO_ESPM, DF_NO_BREAK]\<rparr>,
  \<lparr>name = Some ''ATmega103'', flash_size = 65536, ram_start = 96, ram_size = 4096, eeprom_size = 4096,
    flag = [DF_NO_EICALL, DF_NO_EIJMP, DF_NO_MUL, DF_NO_MOVW, DF_NO_LPM_X, DF_NO_ELPM_X, DF_NO_SPM, DF_NO_ESPM, DF_NO_BREAK]\<rparr>,
  \<lparr>name = Some ''ATmega104'', flash_size = 65536, ram_start = 96, ram_size = 4096, eeprom_size = 4096,
    flag = [DF_NO_EICALL, DF_NO_EIJMP, DF_NO_ESPM]\<rparr>,
  \<lparr>name = Some ''ATmega128'', flash_size = 65536, ram_start = 256, ram_size = 4096, eeprom_size = 4096,
    flag = [DF_NO_EICALL, DF_NO_EIJMP, DF_NO_ESPM]\<rparr>,
  \<lparr>name = Some ''ATmega128A'', flash_size = 65536, ram_start = 256, ram_size = 4096, eeprom_size = 4096,
    flag = [DF_NO_EICALL, DF_NO_EIJMP, DF_NO_ESPM]\<rparr>,
  \<lparr>name = Some ''ATmega48'', flash_size = 2048, ram_start = 256, ram_size = 512, eeprom_size = 256,
    flag = [DF_NO_EICALL, DF_NO_EIJMP, DF_NO_ELPM, DF_NO_ESPM]\<rparr>,
  \<lparr>name = Some ''ATmega48A'', flash_size = 2048, ram_start = 256, ram_size = 512, eeprom_size = 256,
    flag = [DF_NO_EICALL, DF_NO_EIJMP, DF_NO_ELPM, DF_NO_ESPM]\<rparr>,
  \<lparr>name = Some ''ATmega48P'', flash_size = 2048, ram_start = 256, ram_size = 512, eeprom_size = 256,
    flag = [DF_NO_EICALL, DF_NO_EIJMP, DF_NO_ELPM, DF_NO_ESPM]\<rparr>,
  \<lparr>name = Some ''ATmega48PA'', flash_size = 2048, ram_start = 256, ram_size = 512, eeprom_size = 256,
    flag = [DF_NO_EICALL, DF_NO_EIJMP, DF_NO_ELPM, DF_NO_ESPM]\<rparr>,
  \<lparr>name = Some ''ATmega88'', flash_size = 4096, ram_start = 256, ram_size = 1024, eeprom_size = 512,
    flag = [DF_NO_EICALL, DF_NO_EIJMP, DF_NO_ELPM, DF_NO_ESPM]\<rparr>,
  \<lparr>name = Some ''ATmega88A'', flash_size = 4096, ram_start = 256, ram_size = 1024, eeprom_size = 512,
    flag = [DF_NO_EICALL, DF_NO_EIJMP, DF_NO_ELPM, DF_NO_ESPM]\<rparr>,
  \<lparr>name = Some ''ATmega88P'', flash_size = 4096, ram_start = 256, ram_size = 1024, eeprom_size = 512,
    flag = [DF_NO_EICALL, DF_NO_EIJMP, DF_NO_ELPM, DF_NO_ESPM]\<rparr>,
  \<lparr>name = Some ''ATmega88PA'', flash_size = 4096, ram_start = 256, ram_size = 1024, eeprom_size = 512,
    flag = [DF_NO_EICALL, DF_NO_EIJMP, DF_NO_ELPM, DF_NO_ESPM]\<rparr>,
  \<lparr>name = Some ''ATmega168'', flash_size = 8192, ram_start = 256, ram_size = 1024, eeprom_size = 512,
    flag = [DF_NO_EICALL, DF_NO_EIJMP, DF_NO_ELPM, DF_NO_ESPM]\<rparr>,
  \<lparr>name = Some ''ATmega168A'', flash_size = 8192, ram_start = 256, ram_size = 1024, eeprom_size = 512,
    flag = [DF_NO_EICALL, DF_NO_EIJMP, DF_NO_ELPM, DF_NO_ESPM]\<rparr>,
  \<lparr>name = Some ''ATmega168P'', flash_size = 8192, ram_start = 256, ram_size = 1024, eeprom_size = 512,
    flag = [DF_NO_EICALL, DF_NO_EIJMP, DF_NO_ELPM, DF_NO_ESPM]\<rparr>,
  \<lparr>name = Some ''ATmega168PA'', flash_size = 8192, ram_start = 256, ram_size = 1024, eeprom_size = 512,
    flag = [DF_NO_EICALL, DF_NO_EIJMP, DF_NO_ELPM, DF_NO_ESPM]\<rparr>,
  \<lparr>name = Some ''ATmega169'', flash_size = 8192, ram_start = 256, ram_size = 1024, eeprom_size = 512,
    flag = [DF_NO_EICALL, DF_NO_EIJMP, DF_NO_ELPM, DF_NO_ESPM]\<rparr>,
  \<lparr>name = Some ''ATmega169A'', flash_size = 8192, ram_start = 256, ram_size = 1024, eeprom_size = 512,
    flag = [DF_NO_EICALL, DF_NO_EIJMP, DF_NO_ELPM, DF_NO_ESPM]\<rparr>,
  \<lparr>name = Some ''ATmega169P'', flash_size = 8192, ram_start = 256, ram_size = 1024, eeprom_size = 512,
    flag = [DF_NO_EICALL, DF_NO_EIJMP, DF_NO_ELPM, DF_NO_ESPM]\<rparr>,
  \<lparr>name = Some ''ATmega169PA'', flash_size = 8192, ram_start = 256, ram_size = 1024, eeprom_size = 512,
    flag = [DF_NO_EICALL, DF_NO_EIJMP, DF_NO_ELPM, DF_NO_ESPM]\<rparr>,
  \<lparr>name = Some ''ATmega328'', flash_size = 16384, ram_start = 256, ram_size = 2048, eeprom_size = 1024,
    flag = [DF_NO_EICALL, DF_NO_EIJMP, DF_NO_ELPM, DF_NO_ESPM]\<rparr>,
  \<lparr>name = Some ''ATmega328P'', flash_size = 16384, ram_start = 256, ram_size = 2048, eeprom_size = 1024,
    flag = [DF_NO_EICALL, DF_NO_EIJMP, DF_NO_ELPM, DF_NO_ESPM]\<rparr>,
  \<lparr>name = Some ''ATmega328PB'', flash_size = 16384, ram_start = 256, ram_size = 2048, eeprom_size = 1024,
    flag = [DF_NO_EICALL, DF_NO_EIJMP, DF_NO_ELPM, DF_NO_ESPM]\<rparr>,
  \<lparr>name = Some ''ATmega32U4'', flash_size = 16384, ram_start = 256, ram_size = 2560, eeprom_size = 1024,
    flag = [DF_NO_EICALL, DF_NO_EIJMP, DF_NO_ELPM, DF_NO_ESPM]\<rparr>,
  \<lparr>name = Some ''ATmega8515'', flash_size = 8192, ram_start = 96, ram_size = 512, eeprom_size = 512,
    flag = [DF_NO_EICALL, DF_NO_EIJMP, DF_NO_ELPM, DF_NO_ESPM]\<rparr>,
  \<lparr>name = Some ''ATmega1280'', flash_size = 65536, ram_start = 512, ram_size = 8192, eeprom_size = 4096,
    flag = [DF_NO_EICALL, DF_NO_EIJMP, DF_NO_ESPM]\<rparr>,
  \<lparr>name = Some ''ATmega164P'', flash_size = 8192, ram_start = 256, ram_size = 1024, eeprom_size = 512,
    flag = [DF_NO_EICALL, DF_NO_EIJMP, DF_NO_ELPM, DF_NO_ESPM]\<rparr>,
  \<lparr>name = Some ''ATmega164PA'', flash_size = 8192, ram_start = 256, ram_size = 1024, eeprom_size = 512,
    flag = [DF_NO_EICALL, DF_NO_EIJMP, DF_NO_ELPM, DF_NO_ESPM]\<rparr>,
  \<lparr>name = Some ''ATmega324A'', flash_size = 16384, ram_start = 256, ram_size = 2048, eeprom_size = 1024,
    flag = [DF_NO_EICALL, DF_NO_EIJMP, DF_NO_ELPM, DF_NO_ESPM]\<rparr>,
  \<lparr>name = Some ''ATmega324P'', flash_size = 16384, ram_start = 256, ram_size = 2048, eeprom_size = 1024,
    flag = [DF_NO_EICALL, DF_NO_EIJMP, DF_NO_ELPM, DF_NO_ESPM]\<rparr>,
  \<lparr>name = Some ''ATmega324PA'', flash_size = 16384, ram_start = 256, ram_size = 2048, eeprom_size = 1024,
    flag = [DF_NO_EICALL, DF_NO_EIJMP, DF_NO_ELPM, DF_NO_ESPM]\<rparr>,
  \<lparr>name = Some ''ATmega644'', flash_size = 32768, ram_start = 256, ram_size = 4096, eeprom_size = 2048,
    flag = [DF_NO_EICALL, DF_NO_EIJMP, DF_NO_ELPM, DF_NO_ESPM]\<rparr>,
  \<lparr>name = Some ''ATmega644P'', flash_size = 32768, ram_start = 256, ram_size = 4096, eeprom_size = 2096,
    flag = [DF_NO_EICALL, DF_NO_EIJMP, DF_NO_ELPM, DF_NO_ESPM]\<rparr>,
  \<lparr>name = Some ''ATmega644PA'', flash_size = 32768, ram_start = 256, ram_size = 4096, eeprom_size = 2096,
    flag = [DF_NO_EICALL, DF_NO_EIJMP, DF_NO_ELPM, DF_NO_ESPM]\<rparr>,
  \<lparr>name = Some ''ATmega1284P'', flash_size = 65536, ram_start = 256, ram_size = 16384, eeprom_size = 4096,
    flag = [DF_NO_EICALL, DF_NO_EIJMP, DF_NO_ESPM]\<rparr>,
  \<lparr>name = Some ''ATmega1284PA'', flash_size = 65536, ram_start = 256, ram_size = 16384, eeprom_size = 4096,
    flag = [DF_NO_EICALL, DF_NO_EIJMP, DF_NO_ESPM]\<rparr>,
  \<lparr>name = Some ''ATmega2560'', flash_size = 131072, ram_start = 512, ram_size = 8192, eeprom_size = 4096,
    flag = [DF_NO_ESPM]\<rparr>,
  \<lparr>name = Some ''ATmega2561'', flash_size = 131072, ram_start = 512, ram_size = 8192, eeprom_size = 4096,
    flag = [DF_NO_ESPM]\<rparr>,
  \<lparr>name = Some ''ATmega4809'', flash_size = 24000, ram_start = 10240, ram_size = 6000, eeprom_size = 256,
    flag = [DF_NO_ELPM, DF_NO_ESPM, DF_NO_EICALL, DF_NO_EIJMP]\<rparr>,
  \<lparr>name = Some ''AT94K'', flash_size = 8192, ram_start = 96, ram_size = 16384, eeprom_size = 0,
    flag = [DF_NO_ELPM, DF_NO_SPM, DF_NO_ESPM, DF_NO_BREAK, DF_NO_EICALL, DF_NO_EIJMP]\<rparr>,
  \<lparr>name = None, flash_size = 0, ram_start = 0, ram_size = 0, eeprom_size = 0,
    flag = []\<rparr>
  ]"

subsection \<open>Comparing names without regard to case\<close>

text \<open>
  The C library's \<open>tolower\<close> and \<open>toupper\<close> on the ASCII letters (the "C" locale), on the
  character codes.
\<close>

definition tolower :: "char \<Rightarrow> char" where
  "tolower c = (let n = (of_char c :: nat) in if 65 \<le> n \<and> n \<le> 90 then char_of (n + 32) else c)"

definition toupper :: "char \<Rightarrow> char" where
  "toupper c = (let n = (of_char c :: nat) in if 97 \<le> n \<and> n \<le> 122 then char_of (n - 32) else c)"

definition lowercase :: "string \<Rightarrow> string" where
  "lowercase = map tolower"

definition uppercase :: "string \<Rightarrow> string" where
  "uppercase = map toupper"

text \<open>
  Modelled from the spec: \<open>nocase_strcmp\<close> is defined outside device.c (in avra.c, which is
  not among the sources). The spec calls the lookup a "case-insensitive scan", and device.c
  only tests the result against zero. The model walks both strings character by
  character, compares the lower-cased characters, and answers like \<open>strcmp\<close>: zero when
  the strings agree up to letter case, otherwise the sign of the first difference.
\<close>

fun nocase_strcmp :: "string \<Rightarrow> string \<Rightarrow> int" where
  "nocase_strcmp [] [] = 0"
| "nocase_strcmp [] (b # bs) = - 1"
| "nocase_strcmp (a # as) [] = 1"
| "nocase_strcmp (a # as) (b # bs) =
     (if tolower a = tolower b then nocase_strcmp as bs
      else if (of_char (tolower a) :: nat) < of_char (tolower b) then - 1 else 1)"

subsection \<open>Program state and the symbol table\<close>

datatype pass_t = PASS_1 | PASS_2

text \<open>
  What \<open>predef_dev\<close> prints on \<open>stderr\<close>, one constructor per \<open>fprintf\<close>, named after the
  spec's error taxonomy:
  \<^item> \<open>DuplicateSymbolError temp\<close>: "Error: Can't define symbol temp twice. ...";
  \<^item> \<open>MissingSymbolError temp\<close>: "Constant temp is missing in pass 2";
  \<^item> \<open>ValueMismatchError temp j i\<close>: "Constant temp changed value from j in pass1 to i
    in pass 2".
\<close>

datatype message =
    DuplicateSymbolError string
  | MissingSymbolError string
  | ValueMismatchError string int int

text \<open>
  The state the functions of device.c read and write: of \<open>struct prog_info\<close> the pass
  and the symbol table (constants and variables, each a list of labels in definition
  order), the file's static \<open>LastDevice\<close>, and the messages device.c has written to
  \<open>stderr\<close> so far.
\<close>

record state =
  pass :: pass_t
  constants :: "(string \<times> int) list"
  variables :: "(string \<times> int) list"
  LastDevice :: nat
  stderr :: "message list"

text \<open>
  What C leaves undefined: a write past the end of a buffer, a buffer left without its
  terminating NUL, and a read past the end of \<open>device_list\<close>.
\<close>

datatype fault = BufferOverrun | NotTerminated | OutOfBounds

text \<open>
  The symbol table (\<open>def_var\<close>, \<open>def_const\<close>, \<open>test_constant\<close>, \<open>get_constant\<close>) is
  defined outside device.c, in a file that is not among the sources; the spec lists the
  four operations as the interface the registry consumes. Names are compared exactly, as
  the spec words it ("that exact symbol name"). A new label is appended to the end of its
  list (the \<open>LIST_APPEND\<close> idiom of misc.h).
\<close>

text \<open>
  Modelled from the spec: \<open>def_var\<close>, whose code is missing, is the spec's
  \<open>define_variable(session, name, value)\<close>: "unconditional define/overwrite, returns
  nothing".
\<close>

definition def_var :: "state \<Rightarrow> string \<Rightarrow> int \<Rightarrow> state" where
  "def_var s nm v = s\<lparr>variables := AList.update nm v (variables s)\<rparr>"

text \<open>
  Modelled from the spec: \<open>def_const\<close>, whose code is missing, is the spec's
  \<open>define_constant(session, name, value) \<rightarrow> success/failure\<close>: "fails if a constant or
  variable of that name already exists".
\<close>

definition def_const :: "state \<Rightarrow> string \<Rightarrow> int \<Rightarrow> bool \<times> state" where
  "def_const s nm v =
     (if nm \<in> set (map fst (constants s)) \<or> nm \<in> set (map fst (variables s)) then (False, s)
      else (True, s\<lparr>constants := constants s @ [(nm, v)]\<rparr>))"

text \<open>
  Modelled from the spec: \<open>test_constant\<close>, whose code is missing, is the spec's
  \<open>constant_exists(session, name) \<rightarrow> bool\<close>: "collision probe, used in pass 1". The
  collision it probes for is the one the spec gives for pass 1: the Verifier "must confirm
  no pre-existing constant or variable already uses that exact symbol name (collision
  check)". So the probe looks among the constants and then among the variables. The C
  function returns the label found or \<open>NULL\<close>, the model the label's value or \<open>None\<close>.
  Its third argument, a message to print, is \<open>NULL\<close> at its one call in device.c.
\<close>

definition test_constant :: "state \<Rightarrow> string \<Rightarrow> int option" where
  "test_constant s nm = map_of (constants s @ variables s) nm"

text \<open>
  Modelled from the spec: \<open>get_constant\<close>, whose code is missing, is the spec's
  \<open>lookup_constant(session, name) \<rightarrow> (value, found)\<close>: "must find a constant of that exact
  symbol name". \<open>Some j\<close> is \<open>True\<close> with \<open>j\<close> stored through the pointer, \<open>None\<close> is
  \<open>False\<close>.
\<close>

definition get_constant :: "state \<Rightarrow> string \<Rightarrow> int option" where
  "get_constant s nm = map_of (constants s) nm"

subsection \<open>\<open>def_dev\<close>: the four variables of the selected device\<close>

text \<open>
  \<open>def_dev\<close> reads \<open>device_list[LastDevice]\<close> three times. \<open>LastDevice\<close> is only ever set
  by \<open>get_device\<close>, to 0 or to the index of a named entry; the model makes a read past the
  table a fault instead of assuming that.
\<close>

definition def_dev :: "state \<Rightarrow> fault + state" where
  "def_dev s =
     (if \<not> LastDevice s < length device_list then Inl OutOfBounds
      else
        let s1 = def_var s DEV_VAR (int (LastDevice s));
            s2 = def_var s1 FLASH_VAR (flash_size (device_list ! LastDevice s1));
            s3 = def_var s2 EEPROM_VAR (eeprom_size (device_list ! LastDevice s2));
            s4 = def_var s3 RAM_VAR (ram_size (device_list ! LastDevice s3))
        in Inr s4)"

subsection \<open>\<open>get_device\<close>\<close>

text \<open>
  The \<open>while\<close> loop of \<open>get_device\<close>, from index \<open>i\<close>: \<open>Some i\<close> is the \<open>break\<close> at a
  matching entry, \<open>None\<close> the end of the loop at a \<open>NULL\<close> name.
\<close>

function get_device_loop :: "string \<Rightarrow> nat \<Rightarrow> fault + nat option" where
  "get_device_loop nm i =
     (if \<not> i < length device_list then Inl OutOfBounds
      else case name (device_list ! i) of
          None \<Rightarrow> Inr None
        | Some dn \<Rightarrow>
            if nocase_strcmp nm dn = 0 then Inr (Some i)
            else get_device_loop nm (i + 1))"
  by pat_completeness auto
termination
  by (relation "measure (\<lambda>(nm, i). length device_list - i)") auto

text \<open>
  \<open>get_device\<close> returns a pointer into \<open>device_list\<close> or \<open>NULL\<close>; the model returns the
  descriptor pointed to, or \<open>None\<close>.
\<close>

definition get_device :: "state \<Rightarrow> string option \<Rightarrow> fault + (device option \<times> state)" where
  "get_device s nm =
     (let s0 = s\<lparr>LastDevice := 0\<rparr> in
      case nm of
        None \<Rightarrow>
          (case def_dev s0 of
             Inl f \<Rightarrow> Inl f
           | Inr s1 \<Rightarrow> Inr (Some (device_list ! 0), s1))
      | Some n \<Rightarrow>
          (case get_device_loop n 1 of
             Inl f \<Rightarrow> Inl f
           | Inr r \<Rightarrow>
               let s1 = (case r of None \<Rightarrow> s0 | Some i \<Rightarrow> s0\<lparr>LastDevice := i\<rparr>) in
               (case def_dev s1 of
                  Inl f \<Rightarrow> Inl f
                | Inr s2 \<Rightarrow> Inr (map_option (\<lambda>i. device_list ! i) r, s2))))"

subsection \<open>\<open>predef_dev\<close>\<close>

text \<open>
  \<open>strncpy(dst, src, n)\<close> into a buffer of \<open>cap\<close> bytes writes exactly \<open>n\<close> bytes: the
  characters of \<open>src\<close>, then NULs. The string it leaves is \<open>src\<close> when \<open>src\<close> is shorter
  than \<open>n\<close>; otherwise no NUL is written.
  \<open>strncat(dst, src, n)\<close> appends at most \<open>n\<close> characters of \<open>src\<close> and then a NUL: its
  bound counts the characters appended, not the size of the buffer.
\<close>

definition strncpy :: "nat \<Rightarrow> string \<Rightarrow> nat \<Rightarrow> fault + string" where
  "strncpy cap src n =
     (if cap < n then Inl BufferOverrun
      else if n \<le> length src then Inl NotTerminated
      else Inr src)"

definition strncat :: "nat \<Rightarrow> string \<Rightarrow> string \<Rightarrow> nat \<Rightarrow> fault + string" where
  "strncat cap dst src n =
     (let r = dst @ take n src in
      if length r < cap then Inr r else Inl BufferOverrun)"

text \<open>
  Lines 208 to 211: the symbol built in \<open>char temp[MAX_DEV_NAME+1]\<close> from \<open>nm\<close>, which is
  \<open>DEF_DEV_NAME\<close> or the device's name.
\<close>

definition build_symbol :: "string \<Rightarrow> fault + string" where
  "build_symbol nm =
     (case strncpy (MAX_DEV_NAME + 1) DEV_PREFIX MAX_DEV_NAME of
        Inl f \<Rightarrow> Inl f
      | Inr t1 \<Rightarrow>
          (case strncat (MAX_DEV_NAME + 1) t1 nm MAX_DEV_NAME of
             Inl f \<Rightarrow> Inl f
           | Inr t2 \<Rightarrow> strncat (MAX_DEV_NAME + 1) t2 DEV_SUFFIX MAX_DEV_NAME))"

text \<open>
  The \<open>for\<close> loop of \<open>predef_dev\<close>, from index \<open>i\<close>. \<open>loop_entry i\<close> is what the loop
  condition \<open>(!i)||(device_list[i].name)\<close> and the choice of the name to wrap read at
  index \<open>i\<close>: \<open>DEF_DEV_NAME\<close> at index 0, where the table is not read, the entry's name
  otherwise, \<open>None\<close> being the \<open>NULL\<close> that ends the loop. The result of the loop is the
  value returned (\<open>True\<close> or \<open>False\<close>) and the state left behind.
\<close>

definition loop_entry :: "nat \<Rightarrow> fault + string option" where
  "loop_entry i =
     (if i = 0 then Inr (Some DEF_DEV_NAME)
      else if i < length device_list then Inr (name (device_list ! i))
      else Inl OutOfBounds)"

function predef_loop :: "nat \<Rightarrow> state \<Rightarrow> fault + (bool \<times> state)" where
  "predef_loop i s =
     (case loop_entry i of
        Inl f \<Rightarrow> Inl f
      | Inr None \<Rightarrow> Inr (True, s)
      | Inr (Some nm) \<Rightarrow>
          (case build_symbol nm of
             Inl f \<Rightarrow> Inl f
           | Inr temp \<Rightarrow>
               if pass s = PASS_1 then
                 (if test_constant s temp \<noteq> None then
                    Inr (False, s\<lparr>stderr := stderr s @ [DuplicateSymbolError temp]\<rparr>)
                  else
                    (case def_const s temp (int i) of
                       (ok, s') \<Rightarrow>
                         if \<not> ok then Inr (False, s')
                         else predef_loop (i + 1) s'))
               else
                 (case get_constant s temp of
                    None \<Rightarrow> Inr (False, s\<lparr>stderr := stderr s @ [MissingSymbolError temp]\<rparr>)
                  | Some j \<Rightarrow>
                      if int i \<noteq> j then
                        Inr (False, s\<lparr>stderr := stderr s @ [ValueMismatchError temp j (int i)]\<rparr>)
                      else predef_loop (i + 1) s)))"
  by pat_completeness auto
termination
  by (relation "measure (\<lambda>(i, s). length device_list - i)")
    (auto simp add: loop_entry_def device_list_def split: if_splits)

definition predef_dev :: "state \<Rightarrow> fault + (bool \<times> state)" where
  "predef_dev s =
     (case def_dev s of
        Inl f \<Rightarrow> Inl f
      | Inr s1 \<Rightarrow> predef_loop 0 s1)"

subsection \<open>The registry as the two functions traverse it\<close>

text \<open>
  The named entries: what follows the sentinel at index 0, up to the first \<open>NULL\<close> name.
  \<open>registry_names\<close> lists, in table order, the name under which each descriptor is
  predefined: \<open>DEF_DEV_NAME\<close> for the sentinel, its own name for a named device.
  \<open>symbol_name\<close> is the naming convention as the spec words it: the two-character prefix,
  the name, the two-character suffix. \<open>predefined\<close> pairs each symbol with its table index.
\<close>

definition named_devices :: "device list" where
  "named_devices = takeWhile (\<lambda>d. name d \<noteq> None) (tl device_list)"

definition registry_names :: "string list" where
  "registry_names = DEF_DEV_NAME # map (\<lambda>d. the (name d)) named_devices"

definition symbol_name :: "string \<Rightarrow> string" where
  "symbol_name nm = ''__'' @ nm @ ''__''"

definition dev_symbol :: "nat \<Rightarrow> string" where
  "dev_symbol i = symbol_name (registry_names ! i)"

definition predefined :: "(string \<times> int) list" where
  "predefined = map (\<lambda>i. (dev_symbol i, int i)) [0..<length registry_names]"

section \<open>Facts about the table\<close>

lemma length_device_list: "length device_list = 91"
  by (simp add: device_list_def)

lemma length_registry_names: "length registry_names = 90"
  by (simp add: registry_names_def named_devices_def device_list_def)

lemma names_shape: "map name device_list = None # map Some (tl registry_names) @ [None]"
  by (simp add: registry_names_def named_devices_def device_list_def)

lemma name_first: "name (device_list ! 0) = None"
  by (simp add: device_list_def)

lemma name_nth:
  assumes "0 < i" "i < 90"
  shows "name (device_list ! i) = Some (registry_names ! i)"
proof -
  have "name (device_list ! i) = map name device_list ! i"
    using assms by (simp add: length_device_list)
  also have "\<dots> = (map Some (tl registry_names) @ [None]) ! (i - 1)"
    using assms by (simp add: names_shape nth_Cons')
  also have "\<dots> = Some (tl registry_names ! (i - 1))"
    using assms by (simp add: nth_append length_registry_names)
  also have "tl registry_names ! (i - 1) = registry_names ! i"
    using assms by (simp add: nth_tl length_registry_names)
  finally show ?thesis .
qed

lemma name_last: "name (device_list ! 90) = None"
proof -
  have "name (device_list ! 90) = map name device_list ! 90"
    by (simp add: length_device_list)
  also have "\<dots> = (map Some (tl registry_names) @ [None]) ! 89"
    by (simp add: names_shape)
  also have "\<dots> = None"
    by (simp add: nth_append length_registry_names)
  finally show ?thesis .
qed

lemma distinct_lowercase_names: "distinct (map lowercase (tl registry_names))"
  by code_simp

lemma distinct_registry_names: "distinct registry_names"
  by code_simp

lemma registry_names_short: "list_all (\<lambda>n. length n \<le> 12) registry_names"
  by code_simp

lemma variables_not_symbols:
  "list_all (\<lambda>n. symbol_name n \<notin> {DEV_VAR, FLASH_VAR, EEPROM_VAR, RAM_VAR}) registry_names"
  by code_simp


lemma dev_symbol_inj:
  assumes "i < 90" "j < 90" "dev_symbol i = dev_symbol j"
  shows "i = j"
proof -
  have "registry_names ! i = registry_names ! j"
    using assms(3) by (simp add: dev_symbol_def symbol_name_def)
  then show ?thesis
    using assms(1,2) distinct_registry_names
    by (simp add: nth_eq_iff_index_eq length_registry_names)
qed

lemma build_symbol_eq:
  "build_symbol nm = (if length nm \<le> 28 then Inr (symbol_name nm) else Inl BufferOverrun)"
  by (simp add: build_symbol_def strncpy_def strncat_def MAX_DEV_NAME_def DEV_PREFIX_def
      DEV_SUFFIX_def symbol_name_def Let_def)

lemma build_symbol_registry:
  assumes "i < 90"
  shows "build_symbol (registry_names ! i) = Inr (dev_symbol i)"
proof -
  have "length (registry_names ! i) \<le> 12"
    using assms registry_names_short
    by (simp add: list_all_length length_registry_names)
  then show ?thesis
    by (simp add: build_symbol_eq dev_symbol_def)
qed

lemma loop_name:
  assumes "i < 90"
  shows "loop_entry i = Inr (Some (registry_names ! i))"
proof (cases "i = 0")
  case True
  then show ?thesis by (simp add: loop_entry_def registry_names_def)
next
  case False
  with assms show ?thesis by (simp add: loop_entry_def length_device_list name_nth)
qed

declare predef_loop.simps [simp del] get_device_loop.simps [simp del]

lemma predef_loop_end: "predef_loop 90 s = Inr (True, s)"
  by (simp add: predef_loop.simps [of 90] loop_entry_def length_device_list name_last)

lemma predef_loop_step:
  assumes "i < 90"
  shows "predef_loop i s =
    (if pass s = PASS_1 then
       (if test_constant s (dev_symbol i) \<noteq> None then
          Inr (False, s\<lparr>stderr := stderr s @ [DuplicateSymbolError (dev_symbol i)]\<rparr>)
        else
          (case def_const s (dev_symbol i) (int i) of
             (ok, s') \<Rightarrow> if \<not> ok then Inr (False, s') else predef_loop (i + 1) s'))
     else
       (case get_constant s (dev_symbol i) of
          None \<Rightarrow> Inr (False, s\<lparr>stderr := stderr s @ [MissingSymbolError (dev_symbol i)]\<rparr>)
        | Some j \<Rightarrow>
            if int i \<noteq> j then
              Inr (False, s\<lparr>stderr := stderr s @ [ValueMismatchError (dev_symbol i) j (int i)]\<rparr>)
            else predef_loop (i + 1) s))"
  by (subst predef_loop.simps)
    (simp only: loop_name [OF assms] build_symbol_registry [OF assms] option.case sum.case)


lemma pass1_prefix:
  assumes "pass s = PASS_1" "i \<le> k" "k \<le> 90"
    and "\<forall>j. i \<le> j \<and> j < k \<longrightarrow>
           dev_symbol j \<notin> set (map fst (constants s)) \<and> dev_symbol j \<notin> set (map fst (variables s))"
  shows "predef_loop i s =
    predef_loop k (s\<lparr>constants := constants s @ map (\<lambda>j. (dev_symbol j, int j)) [i..<k]\<rparr>)"
  using assms
proof (induction "k - i" arbitrary: i s)
  case 0
  then show ?case by simp
next
  case (Suc n)
  let ?s' = "s\<lparr>constants := constants s @ [(dev_symbol i, int i)]\<rparr>"
  from Suc.hyps(2) Suc.prems(3) have i: "i < k" "i < 90" by simp_all
  from Suc.prems(4) i have free: "dev_symbol i \<notin> set (map fst (constants s))"
    "dev_symbol i \<notin> set (map fst (variables s))" by simp_all
  have probe: "test_constant s (dev_symbol i) = None"
    using free by (simp add: test_constant_def map_of_eq_None_iff image_Un)
  have dc: "def_const s (dev_symbol i) (int i) = (True, ?s')"
    using free by (simp add: def_const_def)
  have step: "predef_loop i s = predef_loop (i + 1) ?s'"
    using Suc.prems(1) by (simp add: predef_loop_step [OF i(2)] probe dc)
  have later: "\<forall>j. i + 1 \<le> j \<and> j < k \<longrightarrow>
      dev_symbol j \<notin> set (map fst (constants ?s')) \<and> dev_symbol j \<notin> set (map fst (variables ?s'))"
  proof (intro allI impI)
    fix j assume j: "i + 1 \<le> j \<and> j < k"
    then have "dev_symbol j \<noteq> dev_symbol i"
      using dev_symbol_inj [of j i] i(2) Suc.prems(3) by auto
    moreover have "dev_symbol j \<notin> set (map fst (constants s)) \<and> dev_symbol j \<notin> set (map fst (variables s))"
      using Suc.prems(4) j by simp
    ultimately show "dev_symbol j \<notin> set (map fst (constants ?s')) \<and> dev_symbol j \<notin> set (map fst (variables ?s'))"
      by simp
  qed
  have "predef_loop (i + 1) ?s' =
      predef_loop k (?s'\<lparr>constants := constants ?s' @ map (\<lambda>j. (dev_symbol j, int j)) [i + 1..<k]\<rparr>)"
    using Suc.hyps(2) Suc.prems(1) i(1) Suc.prems(3) later
    by (intro Suc.hyps(1)) simp_all
  with step show ?case
    using i(1) by (simp add: upt_conv_Cons)
qed

lemma pass2_prefix:
  assumes "pass s \<noteq> PASS_1" "i \<le> k" "k \<le> 90"
    and "\<forall>j. i \<le> j \<and> j < k \<longrightarrow> get_constant s (dev_symbol j) = Some (int j)"
  shows "predef_loop i s = predef_loop k s"
  using assms
proof (induction "k - i" arbitrary: i)
  case 0
  then show ?case by simp
next
  case (Suc n)
  from Suc.hyps(2) Suc.prems(3) have i: "i < k" "i < 90" by simp_all
  have "get_constant s (dev_symbol i) = Some (int i)"
    using Suc.prems(4) i by simp
  then have "predef_loop i s = predef_loop (i + 1) s"
    using Suc.prems(1) by (simp add: predef_loop_step [OF i(2)])
  moreover have "predef_loop (i + 1) s = predef_loop k s"
    using Suc.hyps(2) Suc.prems i(1) by (intro Suc.hyps(1)) simp_all
  ultimately show ?case by simp
qed

lemma def_dev_eq:
  "def_dev s =
    (if LastDevice s < 91 then
       Inr (s\<lparr>variables :=
         AList.update RAM_VAR (ram_size (device_list ! LastDevice s))
           (AList.update EEPROM_VAR (eeprom_size (device_list ! LastDevice s))
             (AList.update FLASH_VAR (flash_size (device_list ! LastDevice s))
               (AList.update DEV_VAR (int (LastDevice s)) (variables s))))\<rparr>)
     else Inl OutOfBounds)"
  by (simp add: def_dev_def def_var_def length_device_list Let_def)

lemma def_dev_frame:
  assumes "def_dev s = Inr s1"
  shows "pass s1 = pass s" "constants s1 = constants s" "stderr s1 = stderr s"
    "LastDevice s1 = LastDevice s" "LastDevice s < 91"
  using assms by (auto simp add: def_dev_eq split: if_splits)

lemma def_dev_names:
  assumes "def_dev s = Inr s1"
  shows "set (map fst (variables s1)) =
    set (map fst (variables s)) \<union> {DEV_VAR, FLASH_VAR, EEPROM_VAR, RAM_VAR}"
proof -
  from assms have "variables s1 =
      AList.update RAM_VAR (ram_size (device_list ! LastDevice s))
        (AList.update EEPROM_VAR (eeprom_size (device_list ! LastDevice s))
          (AList.update FLASH_VAR (flash_size (device_list ! LastDevice s))
            (AList.update DEV_VAR (int (LastDevice s)) (variables s))))"
    by (auto simp add: def_dev_eq split: if_splits)
  then show ?thesis
    unfolding set_map by (simp only: dom_update) auto
qed

lemma var_names_distinct:
  "DEV_VAR \<noteq> FLASH_VAR" "DEV_VAR \<noteq> EEPROM_VAR" "DEV_VAR \<noteq> RAM_VAR"
  "FLASH_VAR \<noteq> EEPROM_VAR" "FLASH_VAR \<noteq> RAM_VAR" "EEPROM_VAR \<noteq> RAM_VAR"
  by (simp_all add: DEV_VAR_def FLASH_VAR_def EEPROM_VAR_def RAM_VAR_def)

lemma def_dev_values:
  assumes "def_dev s = Inr s1"
  shows "map_of (variables s1) DEV_VAR = Some (int (LastDevice s))"
    "map_of (variables s1) FLASH_VAR = Some (flash_size (device_list ! LastDevice s))"
    "map_of (variables s1) EEPROM_VAR = Some (eeprom_size (device_list ! LastDevice s))"
    "map_of (variables s1) RAM_VAR = Some (ram_size (device_list ! LastDevice s))"
  using assms var_names_distinct
  by (auto simp add: def_dev_eq update_conv' split: if_splits)

lemma def_dev_again:
  assumes "def_dev s = Inr s1"
    and "variables s2 = variables s1" "LastDevice s2 = LastDevice s1"
  shows "def_dev s2 = Inr s2"
proof -
  note v = def_dev_values [OF assms(1)] def_dev_frame(4,5) [OF assms(1)]
  have "def_dev s2 = Inr (s2\<lparr>variables := variables s2\<rparr>)"
    unfolding def_dev_eq [of s2] using v var_names_distinct
    by (simp add: assms(2,3) update_triv update_conv')
  then show ?thesis by simp
qed

section \<open>The Verifier: pass 1 followed by pass 2\<close>

lemma symbol_names_nth:
  "j < 90 \<Longrightarrow> dev_symbol j \<in> set (map symbol_name registry_names)"
  by (simp add: dev_symbol_def length_registry_names)

lemma map_of_predefined:
  assumes "j < 90"
  shows "map_of predefined (dev_symbol j) = Some (int j)"
proof -
  have "inj_on dev_symbol (set [0..<90])"
    by (auto intro!: inj_onI dest: dev_symbol_inj)
  then have "distinct (map fst predefined)"
    by (simp add: predefined_def length_registry_names distinct_map comp_def)
  moreover have "(dev_symbol j, int j) \<in> set predefined"
    using assms by (simp add: predefined_def length_registry_names)
  ultimately show ?thesis by simp
qed

lemma symbol_not_variable:
  assumes "j < 90"
  shows "dev_symbol j \<notin> {DEV_VAR, FLASH_VAR, EEPROM_VAR, RAM_VAR}"
  using assms variables_not_symbols
  by (simp add: list_all_length length_registry_names dev_symbol_def)

lemma predefined_upt: "predefined = map (\<lambda>j. (dev_symbol j, int j)) [0..<90]"
  by (simp add: predefined_def length_registry_names)

lemma pass1_success:
  assumes "pass s = PASS_1" and "def_dev s = Inr s1"
    and "\<forall>n \<in> set (map symbol_name registry_names).
           n \<notin> set (map fst (constants s)) \<and> n \<notin> set (map fst (variables s))"
  shows "predef_dev s = Inr (True, s1\<lparr>constants := constants s @ predefined\<rparr>)"
proof -
  note fr = def_dev_frame [OF assms(2)]
  have free: "\<forall>j. 0 \<le> j \<and> j < 90 \<longrightarrow>
      dev_symbol j \<notin> set (map fst (constants s1)) \<and> dev_symbol j \<notin> set (map fst (variables s1))"
  proof (intro allI impI)
    fix j :: nat assume "0 \<le> j \<and> j < 90"
    then have j: "j < 90" by simp
    from assms(3) symbol_names_nth [OF j]
    have "dev_symbol j \<notin> set (map fst (constants s)) \<and> dev_symbol j \<notin> set (map fst (variables s))"
      by blast
    with symbol_not_variable [OF j]
    show "dev_symbol j \<notin> set (map fst (constants s1)) \<and> dev_symbol j \<notin> set (map fst (variables s1))"
      unfolding def_dev_names [OF assms(2)] fr(2) by blast
  qed
  have "predef_loop 0 s1 =
      predef_loop 90 (s1\<lparr>constants := constants s1 @ map (\<lambda>j. (dev_symbol j, int j)) [0..<90]\<rparr>)"
    using assms(1) fr(1) free by (intro pass1_prefix) simp_all
  then show ?thesis
    by (simp add: predef_dev_def assms(2) predef_loop_end fr(2) predefined_upt)
qed

lemma pass2_success:
  assumes "def_dev s = Inr s1"
    and "\<forall>n \<in> set (map symbol_name registry_names). n \<notin> set (map fst (constants s))"
  shows "predef_dev (s1\<lparr>constants := constants s @ predefined, pass := PASS_2\<rparr>) =
      Inr (True, s1\<lparr>constants := constants s @ predefined, pass := PASS_2\<rparr>)"
proof -
  let ?s2 = "s1\<lparr>constants := constants s @ predefined, pass := PASS_2\<rparr>"
  have again: "def_dev ?s2 = Inr ?s2"
    by (rule def_dev_again [OF assms(1)]) simp_all
  have found: "\<forall>j. 0 \<le> j \<and> j < 90 \<longrightarrow> get_constant ?s2 (dev_symbol j) = Some (int j)"
  proof (intro allI impI)
    fix j :: nat assume "0 \<le> j \<and> j < 90"
    then have j: "j < 90" by simp
    from assms(2) symbol_names_nth [OF j]
    have "dev_symbol j \<notin> set (map fst (constants s))" by blast
    then have "map_of (constants s) (dev_symbol j) = None"
      by (simp add: map_of_eq_None_iff)
    then show "get_constant ?s2 (dev_symbol j) = Some (int j)"
      by (simp add: get_constant_def map_add_def map_of_predefined [OF j])
  qed
  have "predef_loop 0 ?s2 = predef_loop 90 ?s2"
    using found by (intro pass2_prefix) simp_all
  then show ?thesis
    by (simp add: predef_dev_def again predef_loop_end)
qed

text \<open>
  Claim C1. In pass 1, on a symbol table in which no device-derived name is a constant or
  a variable, \<open>predef_dev\<close> returns \<open>True\<close> and appends to the constants exactly
  \<open>predefined\<close>: one constant for \<open>__DEFAULT__\<close> and one per named device, in table order,
  each with its table index as value. Run again in pass 2 on the state it left, it
  returns \<open>True\<close> and leaves the state as it is: nothing is written to \<open>stderr\<close>, so
  neither a missing symbol nor a changed value is reported.
\<close>

theorem pass1_defines_pass2_accepts:
  assumes "pass s = PASS_1" and "def_dev s = Inr s1"
    and "\<forall>n \<in> set (map symbol_name registry_names).
           n \<notin> set (map fst (constants s)) \<and> n \<notin> set (map fst (variables s))"
  shows "predef_dev s = Inr (True, s1\<lparr>constants := constants s @ predefined\<rparr>) \<and>
    predef_dev (s1\<lparr>constants := constants s @ predefined, pass := PASS_2\<rparr>) =
      Inr (True, s1\<lparr>constants := constants s @ predefined, pass := PASS_2\<rparr>)"
  using pass1_success [OF assms] pass2_success [OF assms(2)] assms(3) by blast

lemma sentinel_sizes:
  "flash_size (device_list ! 0) = 4194304" "eeprom_size (device_list ! 0) = 65536"
  "ram_size (device_list ! 0) = 8388608"
  by (simp_all add: device_list_def)

theorem pass1_defines_pass2_accepts_witness:
  "predef_dev \<lparr>pass = PASS_1, constants = [], variables = [], LastDevice = 0, stderr = []\<rparr> =
     Inr (True, \<lparr>pass = PASS_1, constants = predefined,
       variables = [(DEV_VAR, 0), (FLASH_VAR, 4194304), (EEPROM_VAR, 65536), (RAM_VAR, 8388608)],
       LastDevice = 0, stderr = []\<rparr>) \<and>
   predef_dev \<lparr>pass = PASS_2, constants = predefined,
       variables = [(DEV_VAR, 0), (FLASH_VAR, 4194304), (EEPROM_VAR, 65536), (RAM_VAR, 8388608)],
       LastDevice = 0, stderr = []\<rparr> =
     Inr (True, \<lparr>pass = PASS_2, constants = predefined,
       variables = [(DEV_VAR, 0), (FLASH_VAR, 4194304), (EEPROM_VAR, 65536), (RAM_VAR, 8388608)],
       LastDevice = 0, stderr = []\<rparr>)"
proof -
  let ?s = "\<lparr>pass = PASS_1, constants = [], variables = [], LastDevice = 0, stderr = []\<rparr>"
  let ?s1 = "\<lparr>pass = PASS_1, constants = [],
       variables = [(DEV_VAR, 0), (FLASH_VAR, 4194304), (EEPROM_VAR, 65536), (RAM_VAR, 8388608)],
       LastDevice = 0, stderr = []\<rparr>"
  have d: "def_dev ?s = Inr ?s1"
    using var_names_distinct by (simp add: def_dev_eq sentinel_sizes)
  show ?thesis
    using pass1_defines_pass2_accepts [of ?s ?s1] d by simp
qed

section \<open>The Verifier: what every run does\<close>

lemma predef_loop_frame:
  assumes "i \<le> 90"
  shows "\<exists>b s'. predef_loop i s = Inr (b, s') \<and> variables s' = variables s \<and>
    LastDevice s' = LastDevice s \<and> pass s' = pass s \<and>
    (\<exists>cs. constants s' = constants s @ cs) \<and> (\<exists>ms. stderr s' = stderr s @ ms)"
  using assms
proof (induction "90 - i" arbitrary: i s)
  case 0
  then have "i = 90" by simp
  then show ?case by (auto simp add: predef_loop_end)
next
  case (Suc n)
  then have i: "i < 90" by simp
  have IH: "\<exists>b s'. predef_loop (i + 1) t = Inr (b, s') \<and> variables s' = variables t \<and>
      LastDevice s' = LastDevice t \<and> pass s' = pass t \<and>
      (\<exists>cs. constants s' = constants t @ cs) \<and> (\<exists>ms. stderr s' = stderr t @ ms)" for t
    using Suc.hyps(2) i by (intro Suc.hyps(1)) simp_all
  show ?case
  proof (cases "pass s = PASS_1")
    case True
    show ?thesis
    proof (cases "test_constant s (dev_symbol i) \<noteq> None")
      case True
      with \<open>pass s = PASS_1\<close> show ?thesis
        by (auto simp add: predef_loop_step [OF i])
    next
      case False
      show ?thesis
      proof (cases "dev_symbol i \<in> set (map fst (constants s)) \<or> dev_symbol i \<in> set (map fst (variables s))")
        case True
        then have "def_const s (dev_symbol i) (int i) = (False, s)"
          by (simp add: def_const_def)
        with False \<open>pass s = PASS_1\<close> show ?thesis
          by (auto simp add: predef_loop_step [OF i])
      next
        case free: False
        let ?t = "s\<lparr>constants := constants s @ [(dev_symbol i, int i)]\<rparr>"
        from free have "def_const s (dev_symbol i) (int i) = (True, ?t)"
          by (simp add: def_const_def)
        with False \<open>pass s = PASS_1\<close> have "predef_loop i s = predef_loop (i + 1) ?t"
          by (simp add: predef_loop_step [OF i])
        with IH [of ?t] show ?thesis by auto
      qed
    qed
  next
    case False
    show ?thesis
    proof (cases "get_constant s (dev_symbol i)")
      case None
      with False show ?thesis by (auto simp add: predef_loop_step [OF i])
    next
      case (Some j)
      show ?thesis
      proof (cases "int i = j")
        case True
        with Some False have "predef_loop i s = predef_loop (i + 1) s"
          by (simp add: predef_loop_step [OF i])
        with IH [of s] show ?thesis by simp
      next
        case ne: False
        with Some False show ?thesis by (auto simp add: predef_loop_step [OF i])
      qed
    qed
  qed
qed

text \<open>
  Claim C9. Whatever the pass, \<open>predef_dev\<close> first runs \<open>def_dev\<close>, and only then the loop
  over the devices, from index 0 on the state \<open>def_dev\<close> left. The loop returns, and the
  variables it leaves are the ones \<open>def_dev\<close> wrote: \<open>__DEVICE__\<close> is the selection state
  \<open>LastDevice\<close>, and \<open>__FLASH_SIZE__\<close>, \<open>__EEPROM_SIZE__\<close> and \<open>__RAM_SIZE__\<close> are the sizes of
  the descriptor \<open>LastDevice\<close> points to.
\<close>

theorem predef_dev_redefines_variables:
  assumes "LastDevice s < length device_list"
  shows "\<exists>s1 b s'. def_dev s = Inr s1 \<and> predef_dev s = predef_loop 0 s1 \<and>
    predef_dev s = Inr (b, s') \<and> variables s' = variables s1 \<and>
    map_of (variables s') DEV_VAR = Some (int (LastDevice s)) \<and>
    map_of (variables s') FLASH_VAR = Some (flash_size (device_list ! LastDevice s)) \<and>
    map_of (variables s') EEPROM_VAR = Some (eeprom_size (device_list ! LastDevice s)) \<and>
    map_of (variables s') RAM_VAR = Some (ram_size (device_list ! LastDevice s))"
proof -
  from assms obtain s1 where s1: "def_dev s = Inr s1"
    by (simp add: def_dev_eq length_device_list)
  from predef_loop_frame [of 0 s1] obtain b s' where
    run: "predef_loop 0 s1 = Inr (b, s')" and vars: "variables s' = variables s1"
    by auto
  have "predef_dev s = predef_loop 0 s1"
    by (simp add: predef_dev_def s1)
  with s1 run vars def_dev_values [OF s1] show ?thesis
    by auto
qed

lemma dev_symbol_0: "dev_symbol 0 = ''__DEFAULT__''"
  by (simp add: dev_symbol_def registry_names_def symbol_name_def DEF_DEV_NAME_def)

lemma device_22: "name (device_list ! 22) = Some ''ATtiny85''"
  "flash_size (device_list ! 22) = 4096" "eeprom_size (device_list ! 22) = 512"
  "ram_size (device_list ! 22) = 512"
  by (simp_all add: device_list_def)

theorem predef_dev_redefines_variables_witness:
  "\<exists>s1 b s'.
     def_dev \<lparr>pass = PASS_2, constants = [], variables = [(DEV_VAR, 7)], LastDevice = 22, stderr = []\<rparr> = Inr s1 \<and>
     predef_dev \<lparr>pass = PASS_2, constants = [], variables = [(DEV_VAR, 7)], LastDevice = 22, stderr = []\<rparr> = predef_loop 0 s1 \<and>
     predef_dev \<lparr>pass = PASS_2, constants = [], variables = [(DEV_VAR, 7)], LastDevice = 22, stderr = []\<rparr> = Inr (b, s') \<and>
     variables s' = variables s1 \<and>
     map_of (variables s') DEV_VAR = Some 22 \<and>
     map_of (variables s') FLASH_VAR = Some 4096 \<and>
     map_of (variables s') EEPROM_VAR = Some 512 \<and>
     map_of (variables s') RAM_VAR = Some 512"
  using predef_dev_redefines_variables
    [of "\<lparr>pass = PASS_2, constants = [], variables = [(DEV_VAR, 7)], LastDevice = 22, stderr = []\<rparr>"]
  by (simp add: length_device_list device_22)

section \<open>The Verifier in pass 2\<close>

lemma dev_symbol_1: "dev_symbol 1 = ''__ATtiny4__''" "dev_symbol (Suc 0) = ''__ATtiny4__''"
  by code_simp+

text \<open>
  Claim C2. In pass 2 the symbols are looked up in table order, \<open>__DEFAULT__\<close> first. Let
  \<open>k\<close> be the first index whose symbol is not a constant of value \<open>k\<close>. Then \<open>predef_dev\<close>
  returns \<open>False\<close>, and what it leaves is the state after \<open>def_dev\<close> with exactly one
  message added: \<open>MissingSymbolError\<close> for that symbol when no constant has the name,
  \<open>ValueMismatchError\<close> with the value found and the index \<open>k\<close> when the values differ.
  No entry after \<open>k\<close> contributes anything, whatever the symbol table holds for it.
\<close>

theorem pass2_first_failure:
  assumes "pass s = PASS_2" and "def_dev s = Inr s1" and "k < length registry_names"
    and "\<forall>i<k. get_constant s (dev_symbol i) = Some (int i)"
    and "get_constant s (dev_symbol k) \<noteq> Some (int k)"
  shows "predef_dev s = Inr (False, s1\<lparr>stderr := stderr s @
    [case get_constant s (dev_symbol k) of
       None \<Rightarrow> MissingSymbolError (dev_symbol k)
     | Some j \<Rightarrow> ValueMismatchError (dev_symbol k) j (int k)]\<rparr>)"
proof -
  note fr = def_dev_frame [OF assms(2)]
  have k: "k < 90" using assms(3) by (simp add: length_registry_names)
  have same: "get_constant s1 n = get_constant s n" for n
    by (simp add: get_constant_def fr(2))
  have p2: "pass s1 \<noteq> PASS_1" using assms(1) fr(1) by simp
  have "predef_loop 0 s1 = predef_loop k s1"
    using p2 k assms(4) by (intro pass2_prefix) (simp_all add: same)
  also have "\<dots> = Inr (False, s1\<lparr>stderr := stderr s @
    [case get_constant s (dev_symbol k) of
       None \<Rightarrow> MissingSymbolError (dev_symbol k)
     | Some j \<Rightarrow> ValueMismatchError (dev_symbol k) j (int k)]\<rparr>)"
    using p2 assms(5) by (auto simp add: predef_loop_step [OF k] same fr(3) split: option.splits)
  finally show ?thesis
    by (simp add: predef_dev_def assms(2))
qed

theorem pass2_first_failure_witness:
  "predef_dev \<lparr>pass = PASS_2, constants = [(''__DEFAULT__'', 0)], variables = [],
       LastDevice = 0, stderr = []\<rparr> =
     Inr (False, \<lparr>pass = PASS_2, constants = [(''__DEFAULT__'', 0)],
       variables = [(DEV_VAR, 0), (FLASH_VAR, 4194304), (EEPROM_VAR, 65536), (RAM_VAR, 8388608)],
       LastDevice = 0, stderr = [MissingSymbolError ''__ATtiny4__'']\<rparr>) \<and>
   predef_dev \<lparr>pass = PASS_2, constants = [(''__DEFAULT__'', 0), (''__ATtiny4__'', 5)], variables = [],
       LastDevice = 0, stderr = []\<rparr> =
     Inr (False, \<lparr>pass = PASS_2, constants = [(''__DEFAULT__'', 0), (''__ATtiny4__'', 5)],
       variables = [(DEV_VAR, 0), (FLASH_VAR, 4194304), (EEPROM_VAR, 65536), (RAM_VAR, 8388608)],
       LastDevice = 0, stderr = [ValueMismatchError ''__ATtiny4__'' 5 1]\<rparr>)"
proof -
  let ?v = "[(DEV_VAR, 0), (FLASH_VAR, 4194304), (EEPROM_VAR, 65536), (RAM_VAR, 8388608)]"
  let ?a = "\<lparr>pass = PASS_2, constants = [(''__DEFAULT__'', 0)], variables = [],
       LastDevice = 0, stderr = []\<rparr>"
  let ?b = "\<lparr>pass = PASS_2, constants = [(''__DEFAULT__'', 0), (''__ATtiny4__'', 5)], variables = [],
       LastDevice = 0, stderr = []\<rparr>"
  have a: "def_dev ?a = Inr (?a\<lparr>variables := ?v\<rparr>)"
    using var_names_distinct by (simp add: def_dev_eq sentinel_sizes)
  have b: "def_dev ?b = Inr (?b\<lparr>variables := ?v\<rparr>)"
    using var_names_distinct by (simp add: def_dev_eq sentinel_sizes)
  have "\<forall>i<1. get_constant ?a (dev_symbol i) = Some (int i)"
    "\<forall>i<1. get_constant ?b (dev_symbol i) = Some (int i)"
    by (simp_all add: get_constant_def dev_symbol_0)
  then show ?thesis
    using pass2_first_failure [of ?a "?a\<lparr>variables := ?v\<rparr>" 1]
      pass2_first_failure [of ?b "?b\<lparr>variables := ?v\<rparr>" 1] a b
    by (simp add: get_constant_def dev_symbol_0 dev_symbol_1 length_registry_names)
qed

section \<open>The Verifier in pass 1: names already taken\<close>

lemma take_predefined:
  assumes "k \<le> 90"
  shows "take k predefined = map (\<lambda>j. (dev_symbol j, int j)) [0..<k]"
  using assms by (simp add: predefined_upt take_map min_def)

lemma pass1_until:
  assumes "pass s = PASS_1" and "def_dev s = Inr s1" and "k < 90"
    and "\<forall>i<k. dev_symbol i \<notin> set (map fst (constants s)) \<and>
           dev_symbol i \<notin> set (map fst (variables s))"
  shows "predef_dev s = predef_loop k (s1\<lparr>constants := constants s @ take k predefined\<rparr>)"
proof -
  note fr = def_dev_frame [OF assms(2)]
  have free: "\<forall>j. 0 \<le> j \<and> j < k \<longrightarrow>
      dev_symbol j \<notin> set (map fst (constants s1)) \<and> dev_symbol j \<notin> set (map fst (variables s1))"
  proof (intro allI impI)
    fix j :: nat assume "0 \<le> j \<and> j < k"
    then have j: "j < k" "j < 90" using assms(3) by simp_all
    from assms(4) j(1)
    have "dev_symbol j \<notin> set (map fst (constants s)) \<and> dev_symbol j \<notin> set (map fst (variables s))"
      by blast
    with symbol_not_variable [OF j(2)]
    show "dev_symbol j \<notin> set (map fst (constants s1)) \<and> dev_symbol j \<notin> set (map fst (variables s1))"
      unfolding def_dev_names [OF assms(2)] fr(2) by blast
  qed
  have "predef_loop 0 s1 =
      predef_loop k (s1\<lparr>constants := constants s1 @ map (\<lambda>j. (dev_symbol j, int j)) [0..<k]\<rparr>)"
    using assms(1,3) fr(1) free by (intro pass1_prefix) simp_all
  then show ?thesis
    using assms(3) by (simp add: predef_dev_def assms(2) fr(2) take_predefined)
qed

lemma pass1_taken:
  assumes "pass s = PASS_1" and "def_dev s = Inr s1" and "k < 90"
    and "\<forall>i<k. dev_symbol i \<notin> set (map fst (constants s)) \<and>
           dev_symbol i \<notin> set (map fst (variables s))"
    and "dev_symbol k \<in> set (map fst (constants s)) \<or> dev_symbol k \<in> set (map fst (variables s))"
  shows "predef_dev s = Inr (False, s1\<lparr>constants := constants s @ take k predefined,
    stderr := stderr s @ [DuplicateSymbolError (dev_symbol k)]\<rparr>)"
proof -
  note fr = def_dev_frame [OF assms(2)]
  let ?t = "s1\<lparr>constants := constants s @ take k predefined\<rparr>"
  have "dev_symbol k \<in> fst ` set (constants ?t @ variables ?t)"
    using assms(5) def_dev_names [OF assms(2)] by auto
  then have "test_constant ?t (dev_symbol k) \<noteq> None"
    unfolding test_constant_def map_of_eq_None_iff by simp
  then have "predef_loop k ?t =
      Inr (False, ?t\<lparr>stderr := stderr ?t @ [DuplicateSymbolError (dev_symbol k)]\<rparr>)"
    using assms(1) fr(1) by (simp add: predef_loop_step [OF assms(3)])
  then show ?thesis
    by (simp add: pass1_until [OF assms(1-4)] fr(3))
qed

lemma pass1_again:
  assumes "pass s = PASS_1" and "def_dev s = Inr s1" and "predef_dev s = Inr (b, s')"
  shows "predef_dev s' =
    Inr (False, s'\<lparr>stderr := stderr s' @ [DuplicateSymbolError (dev_symbol 0)]\<rparr>)"
proof -
  note fr = def_dev_frame [OF assms(2)]
  have run: "predef_loop 0 s1 = Inr (b, s')"
    using assms(2,3) by (simp add: predef_dev_def)
  from predef_loop_frame [of 0 s1] run
  have keep: "variables s' = variables s1" "LastDevice s' = LastDevice s1" "pass s' = pass s1"
    by auto
  have again: "def_dev s' = Inr s'"
    by (rule def_dev_again [OF assms(2) keep(1,2)])
  have taken: "dev_symbol 0 \<in> fst ` set (constants s' @ variables s')"
  proof (cases "dev_symbol 0 \<in> fst ` set (constants s1 @ variables s1)")
    case True
    from predef_loop_frame [of 0 s1] run obtain cs where "constants s' = constants s1 @ cs"
      by auto
    with True keep(1) show ?thesis by auto
  next
    case False
    let ?t = "s1\<lparr>constants := constants s1 @ [(dev_symbol 0, int 0)]\<rparr>"
    from False have dc: "def_const s1 (dev_symbol 0) (int 0) = (True, ?t)"
      by (simp add: def_const_def image_Un)
    from False have "test_constant s1 (dev_symbol 0) = None"
      unfolding test_constant_def map_of_eq_None_iff by simp
    with dc have "predef_loop 0 s1 = predef_loop 1 ?t"
      using assms(1) fr(1) by (simp add: predef_loop_step [of 0])
    with run have "predef_loop 1 ?t = Inr (b, s')" by simp
    with predef_loop_frame [of 1 ?t] obtain cs where "constants s' = constants ?t @ cs"
      by auto
    then show ?thesis by simp
  qed
  then have "test_constant s' (dev_symbol 0) \<noteq> None"
    unfolding test_constant_def map_of_eq_None_iff by simp
  then have "predef_loop 0 s' =
      Inr (False, s'\<lparr>stderr := stderr s' @ [DuplicateSymbolError (dev_symbol 0)]\<rparr>)"
    using assms(1) fr(1) keep(3) by (simp add: predef_loop_step [of 0])
  then show ?thesis
    by (simp add: predef_dev_def again)
qed

lemma dev_symbol_2: "dev_symbol 2 = ''__ATtiny5__''"
  by code_simp

lemma take_2_predefined: "take 2 predefined = [(''__DEFAULT__'', 0), (''__ATtiny4__'', 1)]"
  by (simp add: take_predefined numeral_2_eq_2 dev_symbol_0 dev_symbol_1)

text \<open>
  Claim C6. In pass 1, let \<open>k\<close> be the first index, in table order, whose symbol is
  already a constant or a variable of the symbol table. Then \<open>predef_dev\<close> returns
  \<open>False\<close> and reports \<open>DuplicateSymbolError\<close> for that symbol, after defining the
  constants of the entries before \<open>k\<close>. So whenever some device-derived name is taken, the
  run fails with a \<open>DuplicateSymbolError\<close> that names a taken symbol, the first one the
  loop meets. And a pass-1 run on the state that a pass-1 run has left, whether that
  run succeeded or failed, reports \<open>DuplicateSymbolError\<close> for \<open>__DEFAULT__\<close>.
\<close>

theorem pass1_collision:
  assumes "pass s = PASS_1" and "def_dev s = Inr s1"
  shows
    "(\<forall>k<length registry_names.
        (\<forall>i<k. dev_symbol i \<notin> set (map fst (constants s)) \<and>
                dev_symbol i \<notin> set (map fst (variables s))) \<and>
        (dev_symbol k \<in> set (map fst (constants s)) \<or>
         dev_symbol k \<in> set (map fst (variables s))) \<longrightarrow>
        predef_dev s = Inr (False, s1\<lparr>constants := constants s @ take k predefined,
          stderr := stderr s @ [DuplicateSymbolError (dev_symbol k)]\<rparr>)) \<and>
     (\<forall>m<length registry_names.
        dev_symbol m \<in> set (map fst (constants s)) \<or>
        dev_symbol m \<in> set (map fst (variables s)) \<longrightarrow>
        (\<exists>k\<le>m. \<exists>s'.
           (dev_symbol k \<in> set (map fst (constants s)) \<or>
            dev_symbol k \<in> set (map fst (variables s))) \<and>
           predef_dev s = Inr (False, s') \<and>
           stderr s' = stderr s @ [DuplicateSymbolError (dev_symbol k)])) \<and>
     (\<forall>b s'. predef_dev s = Inr (b, s') \<longrightarrow>
        predef_dev s' =
          Inr (False, s'\<lparr>stderr := stderr s' @ [DuplicateSymbolError (dev_symbol 0)]\<rparr>))"
proof (intro conjI allI impI)
  fix k
  assume "k < length registry_names"
    and "(\<forall>i<k. dev_symbol i \<notin> set (map fst (constants s)) \<and>
                dev_symbol i \<notin> set (map fst (variables s))) \<and>
        (dev_symbol k \<in> set (map fst (constants s)) \<or>
         dev_symbol k \<in> set (map fst (variables s)))"
  then show "predef_dev s = Inr (False, s1\<lparr>constants := constants s @ take k predefined,
          stderr := stderr s @ [DuplicateSymbolError (dev_symbol k)]\<rparr>)"
    using pass1_taken [OF assms, of k] by (simp add: length_registry_names)
next
  fix m
  assume m: "m < length registry_names"
    and taken: "dev_symbol m \<in> set (map fst (constants s)) \<or>
        dev_symbol m \<in> set (map fst (variables s))"
  let ?taken = "\<lambda>j. dev_symbol j \<in> set (map fst (constants s)) \<or>
      dev_symbol j \<in> set (map fst (variables s))"
  define k where "k = (LEAST j. ?taken j)"
  have k: "?taken k" unfolding k_def using taken by (rule LeastI)
  have km: "k \<le> m" unfolding k_def using taken by (rule Least_le)
  have before: "\<forall>i<k. dev_symbol i \<notin> set (map fst (constants s)) \<and>
      dev_symbol i \<notin> set (map fst (variables s))"
    using not_less_Least [of _ ?taken] unfolding k_def by blast
  have "k < 90" using km m by (simp add: length_registry_names)
  from pass1_taken [OF assms this before k]
  have "predef_dev s = Inr (False, s1\<lparr>constants := constants s @ take k predefined,
      stderr := stderr s @ [DuplicateSymbolError (dev_symbol k)]\<rparr>)" .
  with k km show "\<exists>k\<le>m. \<exists>s'.
           (dev_symbol k \<in> set (map fst (constants s)) \<or>
            dev_symbol k \<in> set (map fst (variables s))) \<and>
           predef_dev s = Inr (False, s') \<and>
           stderr s' = stderr s @ [DuplicateSymbolError (dev_symbol k)]"
    by (intro exI [of _ k] conjI exI [of _ "s1\<lparr>constants := constants s @ take k predefined,
      stderr := stderr s @ [DuplicateSymbolError (dev_symbol k)]\<rparr>"]) simp_all
next
  fix b s'
  assume "predef_dev s = Inr (b, s')"
  then show "predef_dev s' =
          Inr (False, s'\<lparr>stderr := stderr s' @ [DuplicateSymbolError (dev_symbol 0)]\<rparr>)"
    by (rule pass1_again [OF assms])
qed

theorem pass1_collision_witness:
  "predef_dev \<lparr>pass = PASS_1, constants = [(''__ATtiny5__'', 9)], variables = [],
       LastDevice = 0, stderr = []\<rparr> =
     Inr (False, \<lparr>pass = PASS_1,
       constants = [(''__ATtiny5__'', 9), (''__DEFAULT__'', 0), (''__ATtiny4__'', 1)],
       variables = [(DEV_VAR, 0), (FLASH_VAR, 4194304), (EEPROM_VAR, 65536), (RAM_VAR, 8388608)],
       LastDevice = 0, stderr = [DuplicateSymbolError ''__ATtiny5__'']\<rparr>) \<and>
   predef_dev \<lparr>pass = PASS_1, constants = [], variables = [(''__DEFAULT__'', 7)],
       LastDevice = 0, stderr = []\<rparr> =
     Inr (False, \<lparr>pass = PASS_1, constants = [],
       variables = [(''__DEFAULT__'', 7), (DEV_VAR, 0), (FLASH_VAR, 4194304), (EEPROM_VAR, 65536),
         (RAM_VAR, 8388608)],
       LastDevice = 0, stderr = [DuplicateSymbolError ''__DEFAULT__'']\<rparr>) \<and>
   predef_dev \<lparr>pass = PASS_1, constants = predefined,
       variables = [(DEV_VAR, 0), (FLASH_VAR, 4194304), (EEPROM_VAR, 65536), (RAM_VAR, 8388608)],
       LastDevice = 0, stderr = []\<rparr> =
     Inr (False, \<lparr>pass = PASS_1, constants = predefined,
       variables = [(DEV_VAR, 0), (FLASH_VAR, 4194304), (EEPROM_VAR, 65536), (RAM_VAR, 8388608)],
       LastDevice = 0, stderr = [DuplicateSymbolError ''__DEFAULT__'']\<rparr>)"
proof -
  let ?v = "[(DEV_VAR, 0), (FLASH_VAR, 4194304), (EEPROM_VAR, 65536), (RAM_VAR, 8388608)]"
  let ?a = "\<lparr>pass = PASS_1, constants = [(''__ATtiny5__'', 9)], variables = [],
       LastDevice = 0, stderr = []\<rparr>"
  let ?b = "\<lparr>pass = PASS_1, constants = [], variables = [(''__DEFAULT__'', 7)],
       LastDevice = 0, stderr = []\<rparr>"
  let ?c = "\<lparr>pass = PASS_1, constants = [], variables = [], LastDevice = 0, stderr = []\<rparr>"
  have a: "def_dev ?a = Inr (?a\<lparr>variables := ?v\<rparr>)"
    using var_names_distinct by (simp add: def_dev_eq sentinel_sizes)
  have "DEV_VAR \<noteq> ''__DEFAULT__''" "FLASH_VAR \<noteq> ''__DEFAULT__''"
    "EEPROM_VAR \<noteq> ''__DEFAULT__''" "RAM_VAR \<noteq> ''__DEFAULT__''"
    by (simp_all add: DEV_VAR_def FLASH_VAR_def EEPROM_VAR_def RAM_VAR_def)
  then have b: "def_dev ?b = Inr (?b\<lparr>variables := (''__DEFAULT__'', 7) # ?v\<rparr>)"
    using var_names_distinct by (simp add: def_dev_eq sentinel_sizes)
  have c: "def_dev ?c = Inr (?c\<lparr>variables := ?v\<rparr>)"
    using var_names_distinct by (simp add: def_dev_eq sentinel_sizes)
  have first: "predef_dev ?c = Inr (True, ?c\<lparr>variables := ?v, constants := predefined\<rparr>)"
    using pass1_success [OF _ c] by simp
  have two: "\<forall>i<2. dev_symbol i \<notin> set (map fst (constants ?a)) \<and>
      dev_symbol i \<notin> set (map fst (variables ?a))"
    by (auto simp add: less_2_cases_iff dev_symbol_0 dev_symbol_1)
  have "predef_dev ?a = Inr (False, ?a\<lparr>variables := ?v,
      constants := constants ?a @ take 2 predefined,
      stderr := stderr ?a @ [DuplicateSymbolError (dev_symbol 2)]\<rparr>)"
    using pass1_collision [of ?a "?a\<lparr>variables := ?v\<rparr>", THEN conjunct1, rule_format, of 2] a two
    by (simp add: length_registry_names dev_symbol_2)
  moreover have "predef_dev ?b = Inr (False, ?b\<lparr>variables := (''__DEFAULT__'', 7) # ?v,
      constants := constants ?b @ take 0 predefined,
      stderr := stderr ?b @ [DuplicateSymbolError (dev_symbol 0)]\<rparr>)"
    using pass1_collision [of ?b "?b\<lparr>variables := (''__DEFAULT__'', 7) # ?v\<rparr>",
        THEN conjunct1, rule_format, of 0] b
    by (simp add: length_registry_names dev_symbol_0)
  moreover have "predef_dev (?c\<lparr>variables := ?v, constants := predefined\<rparr>) =
      Inr (False, ?c\<lparr>variables := ?v, constants := predefined,
        stderr := [DuplicateSymbolError (dev_symbol 0)]\<rparr>)"
    using pass1_collision [of ?c "?c\<lparr>variables := ?v\<rparr>",
        THEN conjunct2, THEN conjunct2, rule_format, of True "?c\<lparr>variables := ?v, constants := predefined\<rparr>"]
      c first
    by simp
  ultimately show ?thesis
    by (simp add: take_2_predefined dev_symbol_2 dev_symbol_0)
qed

section \<open>Building the symbol\<close>

text \<open>
  At every index before the terminating entry, the name the loop wraps is \<open>DEFAULT\<close> for
  the sentinel and the entry's own name for a named device, and the symbol built in
  \<open>temp\<close> is the prefix \<open>__\<close>, that name, and the suffix \<open>__\<close>.
\<close>

lemma registry_symbols_wrapped:
  "\<forall>i<length device_list - 1. \<exists>nm.
      (if i = 0 then nm = ''DEFAULT'' else name (device_list ! i) = Some nm) \<and>
      loop_entry i = Inr (Some nm) \<and>
      build_symbol nm = Inr (''__'' @ nm @ ''__'')"
proof (intro allI impI)
  fix i assume "i < length device_list - 1"
  then have i: "i < 90" by (simp add: length_device_list)
  have "if i = 0 then registry_names ! i = ''DEFAULT''
      else name (device_list ! i) = Some (registry_names ! i)"
    using i by (simp add: name_nth registry_names_def DEF_DEV_NAME_def)
  moreover have "build_symbol (registry_names ! i) = Inr (''__'' @ registry_names ! i @ ''__'')"
    using build_symbol_registry [OF i] by (simp add: dev_symbol_def symbol_name_def)
  ultimately show "\<exists>nm.
      (if i = 0 then nm = ''DEFAULT'' else name (device_list ! i) = Some nm) \<and>
      loop_entry i = Inr (Some nm) \<and>
      build_symbol nm = Inr (''__'' @ nm @ ''__'')"
    using loop_name [OF i] by blast
qed


text \<open>
  Claim C10. Every named device of the shipped table has a symbol of at most
  \<open>MAX_DEV_NAME\<close> characters (prefix, name and suffix together). So the bound of the
  \<open>strncat\<close> calls cuts nothing off its name, and building the symbol in the buffer of
  \<open>MAX_DEV_NAME + 1\<close> bytes succeeds: no write goes past its end.
\<close>

theorem shipped_names_fit:
  "\<forall>d \<in> set named_devices. \<exists>nm. name d = Some nm \<and>
     length (DEV_PREFIX @ nm @ DEV_SUFFIX) \<le> MAX_DEV_NAME \<and>
     take MAX_DEV_NAME nm = nm \<and>
     build_symbol nm = Inr (DEV_PREFIX @ nm @ DEV_SUFFIX)"
proof
  fix d assume "d \<in> set named_devices"
  then have "name d \<noteq> None"
    unfolding named_devices_def by (auto dest: set_takeWhileD)
  then obtain nm where nm: "name d = Some nm" by auto
  with \<open>d \<in> set named_devices\<close> have "nm \<in> set registry_names"
    by (force simp add: registry_names_def)
  with registry_names_short have "length nm \<le> 12"
    by (simp add: list_all_iff)
  then show "\<exists>nm. name d = Some nm \<and>
     length (DEV_PREFIX @ nm @ DEV_SUFFIX) \<le> MAX_DEV_NAME \<and>
     take MAX_DEV_NAME nm = nm \<and>
     build_symbol nm = Inr (DEV_PREFIX @ nm @ DEV_SUFFIX)"
    using nm by (simp add: build_symbol_eq symbol_name_def DEV_PREFIX_def DEV_SUFFIX_def MAX_DEV_NAME_def)
qed

lemma ATmega1284PA_named:
  "\<lparr>name = Some ''ATmega1284PA'', flash_size = 65536, ram_start = 256, ram_size = 16384,
     eeprom_size = 4096, flag = [DF_NO_EICALL, DF_NO_EIJMP, DF_NO_ESPM]\<rparr> \<in> set named_devices"
  by (simp add: named_devices_def device_list_def)

theorem shipped_names_fit_witness:
  "length (DEV_PREFIX @ ''ATmega1284PA'' @ DEV_SUFFIX) \<le> MAX_DEV_NAME \<and>
   build_symbol ''ATmega1284PA'' = Inr (DEV_PREFIX @ ''ATmega1284PA'' @ DEV_SUFFIX)"
  using shipped_names_fit [rule_format, OF ATmega1284PA_named] by simp

section \<open>The registry table\<close>

lemma of_char_tolower:
  "(of_char (tolower c) :: nat) =
    (let n = of_char c in if 65 \<le> n \<and> n \<le> 90 then n + 32 else n)"
  by (simp add: tolower_def Let_def)

lemma of_char_toupper:
  "(of_char (toupper c) :: nat) =
    (let n = of_char c in if 97 \<le> n \<and> n \<le> 122 then n - 32 else n)"
  by (auto simp add: toupper_def Let_def)

lemma of_char_nat_inj: "(of_char a :: nat) = of_char b \<Longrightarrow> a = b"
  by (metis of_char_eq_iff)

lemma tolower_toupper: "tolower (toupper c) = tolower c"
  by (rule of_char_nat_inj) (auto simp add: of_char_tolower of_char_toupper Let_def)

lemma tolower_tolower: "tolower (tolower c) = tolower c"
  by (rule of_char_nat_inj) (auto simp add: of_char_tolower Let_def)

lemma nocase_strcmp_iff: "nocase_strcmp a b = 0 \<longleftrightarrow> lowercase a = lowercase b"
  by (induction a b rule: nocase_strcmp.induct) (auto simp add: lowercase_def)

lemma lowercase_uppercase: "lowercase (uppercase n) = lowercase n"
  by (simp add: lowercase_def uppercase_def tolower_toupper)

lemma lowercase_lowercase: "lowercase (lowercase n) = lowercase n"
  by (simp add: lowercase_def tolower_tolower)

lemma lowercase_names_inj:
  assumes "0 < i" "i < 90" "0 < j" "j < 90"
    and "lowercase (registry_names ! i) = lowercase (registry_names ! j)"
  shows "i = j"
proof -
  let ?l = "map lowercase (tl registry_names)"
  have len: "length ?l = 89" by (simp add: length_registry_names)
  have "?l ! (i - 1) = lowercase (registry_names ! i)" "?l ! (j - 1) = lowercase (registry_names ! j)"
    using assms(1-4) by (simp_all add: nth_tl length_registry_names)
  with assms(5) have eq: "?l ! (i - 1) = ?l ! (j - 1)" by simp
  have "i - 1 < length ?l" "j - 1 < length ?l"
    using assms(1-4) len by simp_all
  from nth_eq_iff_index_eq [OF distinct_lowercase_names this] eq
  have "i - 1 = j - 1" by blast
  with assms(1,3) show ?thesis by simp
qed

lemma sizes_nonnegative:
  "list_all (\<lambda>d. 0 \<le> flash_size d \<and> 0 \<le> ram_size d \<and> 0 \<le> eeprom_size d) device_list"
  by (simp add: device_list_def)

text \<open>
  Claim C8. In \<open>device_list\<close> the entry at index 0 has no name, the last entry is the
  terminating entry without a name, and every entry between them has one. The names of
  two different entries differ for \<open>nocase_strcmp\<close>, that is, also when letter case is
  ignored. No entry has a negative flash, RAM or EEPROM size.
\<close>

theorem registry_invariant:
  "name (device_list ! 0) = None \<and>
   name (last device_list) = None \<and>
   (\<forall>i. 0 < i \<and> i < length device_list - 1 \<longrightarrow> name (device_list ! i) \<noteq> None) \<and>
   (\<forall>i j a b. 0 < i \<and> i < j \<and> j < length device_list - 1 \<and>
      name (device_list ! i) = Some a \<and> name (device_list ! j) = Some b \<longrightarrow>
      nocase_strcmp a b \<noteq> 0) \<and>
   (\<forall>d \<in> set device_list. 0 \<le> flash_size d \<and> 0 \<le> ram_size d \<and> 0 \<le> eeprom_size d)"
proof (intro conjI allI impI ballI)
  show "name (device_list ! 0) = None" by (rule name_first)
next
  have "device_list \<noteq> []" using length_device_list by auto
  then have "last device_list = device_list ! 90"
    by (simp add: last_conv_nth length_device_list)
  then show "name (last device_list) = None" by (simp add: name_last)
next
  fix i assume "0 < i \<and> i < length device_list - 1"
  then show "name (device_list ! i) \<noteq> None"
    by (simp add: length_device_list name_nth)
next
  fix i j a b
  assume h: "0 < i \<and> i < j \<and> j < length device_list - 1 \<and>
      name (device_list ! i) = Some a \<and> name (device_list ! j) = Some b"
  then have ij: "0 < i" "i < 90" "0 < j" "j < 90" "i \<noteq> j"
    by (simp_all add: length_device_list)
  with h have "a = registry_names ! i" "b = registry_names ! j"
    by (simp_all add: name_nth)
  with ij lowercase_names_inj [of i j] show "nocase_strcmp a b \<noteq> 0"
    by (auto simp add: nocase_strcmp_iff)
next
  fix d assume "d \<in> set device_list"
  with sizes_nonnegative show "0 \<le> flash_size d" "0 \<le> ram_size d" "0 \<le> eeprom_size d"
    by (simp_all add: list_all_iff)
qed

lemma device_12_13:
  "name (device_list ! 12) = Some ''ATtiny24''" "name (device_list ! 13) = Some ''ATtiny24A''"
  "device_list ! 13 \<in> set device_list"
  by (simp_all add: device_list_def)

theorem registry_invariant_witness:
  "name (device_list ! 13) \<noteq> None \<and> nocase_strcmp ''ATtiny24'' ''ATtiny24A'' \<noteq> 0 \<and>
   0 \<le> flash_size (device_list ! 13) \<and> 0 \<le> ram_size (device_list ! 13) \<and>
   0 \<le> eeprom_size (device_list ! 13)"
  using registry_invariant [THEN conjunct2, THEN conjunct2, THEN conjunct1, rule_format, of 13]
    registry_invariant [THEN conjunct2, THEN conjunct2, THEN conjunct2, THEN conjunct1, rule_format,
      of 12 13 "''ATtiny24''" "''ATtiny24A''"]
    registry_invariant [THEN conjunct2, THEN conjunct2, THEN conjunct2, THEN conjunct2, rule_format,
      of "device_list ! 13"]
  by (simp add: length_device_list device_12_13)

section \<open>Looking a device up\<close>

lemma get_device_loop_end: "get_device_loop nm 90 = Inr None"
  by (simp add: get_device_loop.simps [of nm 90] length_device_list name_last)

lemma get_device_loop_step:
  assumes "0 < i" "i < 90"
  shows "get_device_loop nm i =
    (if nocase_strcmp nm (registry_names ! i) = 0 then Inr (Some i)
     else get_device_loop nm (i + 1))"
  using assms
  by (subst get_device_loop.simps) (simp add: length_device_list name_nth)

lemma get_device_loop_skip:
  assumes "0 < i" "i \<le> k" "k \<le> 90"
    and "\<forall>j. i \<le> j \<and> j < k \<longrightarrow> nocase_strcmp nm (registry_names ! j) \<noteq> 0"
  shows "get_device_loop nm i = get_device_loop nm k"
  using assms
proof (induction "k - i" arbitrary: i)
  case 0
  then show ?case by simp
next
  case (Suc n)
  then have i: "0 < i" "i < 90" "i < k" by simp_all
  have "nocase_strcmp nm (registry_names ! i) \<noteq> 0"
    using Suc.prems(4) i(3) by simp
  then have "get_device_loop nm i = get_device_loop nm (i + 1)"
    by (simp add: get_device_loop_step [OF i(1,2)])
  moreover have "get_device_loop nm (i + 1) = get_device_loop nm k"
    using Suc.hyps(2) Suc.prems i(3) by (intro Suc.hyps(1)) simp_all
  ultimately show ?case by simp
qed

lemma named_devices_nth:
  assumes "0 < i" "i < 90"
  shows "device_list ! i \<in> set named_devices"
proof -
  have len: "length named_devices = 89"
    using length_registry_names by (simp add: registry_names_def)
  have nd: "named_devices = take 89 (tl device_list)"
    by (simp add: named_devices_def device_list_def)
  have "named_devices ! (i - 1) = tl device_list ! (i - 1)"
    unfolding nd using assms by simp
  also have "\<dots> = device_list ! i"
    using assms by (simp add: nth_tl length_device_list)
  finally have "named_devices ! (i - 1) = device_list ! i" .
  moreover have "named_devices ! (i - 1) \<in> set named_devices"
    using assms len by (intro nth_mem) simp
  ultimately show ?thesis by simp
qed

text \<open>
  Claim C4. Without a name, \<open>get_device\<close> returns the entry at index 0, the sentinel,
  whatever the state was. It leaves \<open>LastDevice\<close> at 0 and the four variables defined
  from the sentinel: \<open>__DEVICE__\<close> is 0, and the three sizes are the sentinel's. Nothing
  else of the state changes.
\<close>

theorem get_device_absent_name:
  "get_device s None =
     Inr (Some (device_list ! 0),
       s\<lparr>LastDevice := 0,
         variables :=
           AList.update RAM_VAR (ram_size (device_list ! 0))
             (AList.update EEPROM_VAR (eeprom_size (device_list ! 0))
               (AList.update FLASH_VAR (flash_size (device_list ! 0))
                 (AList.update DEV_VAR 0 (variables s))))\<rparr>) \<and>
   name (device_list ! 0) = None \<and>
   flash_size (device_list ! 0) = 4194304 \<and>
   eeprom_size (device_list ! 0) = 65536 \<and>
   ram_size (device_list ! 0) = 8388608"
  by (simp add: get_device_def def_dev_eq name_first sentinel_sizes)

text \<open>
  Claim C3. For a name that \<open>nocase_strcmp\<close> matches with no named entry, \<open>get_device\<close>
  returns \<open>NULL\<close>, and the state it leaves is the one it leaves without a name:
  \<open>LastDevice\<close> is 0 and the four variables are defined from the sentinel.
\<close>

theorem get_device_unknown_name:
  assumes "\<forall>d \<in> set named_devices. \<forall>dn. name d = Some dn \<longrightarrow> nocase_strcmp n dn \<noteq> 0"
  shows "get_device s (Some n) =
     Inr (None,
       s\<lparr>LastDevice := 0,
         variables :=
           AList.update RAM_VAR (ram_size (device_list ! 0))
             (AList.update EEPROM_VAR (eeprom_size (device_list ! 0))
               (AList.update FLASH_VAR (flash_size (device_list ! 0))
                 (AList.update DEV_VAR 0 (variables s))))\<rparr>) \<and>
   flash_size (device_list ! 0) = 4194304 \<and>
   eeprom_size (device_list ! 0) = 65536 \<and>
   ram_size (device_list ! 0) = 8388608"
proof -
  have "\<forall>j. 1 \<le> j \<and> j < 90 \<longrightarrow> nocase_strcmp n (registry_names ! j) \<noteq> 0"
  proof (intro allI impI)
    fix j :: nat assume "1 \<le> j \<and> j < 90"
    then have j: "0 < j" "j < 90" by simp_all
    from assms named_devices_nth [OF j] name_nth [OF j]
    show "nocase_strcmp n (registry_names ! j) \<noteq> 0" by blast
  qed
  then have "get_device_loop n 1 = get_device_loop n 90"
    by (intro get_device_loop_skip) simp_all
  then show ?thesis
    by (simp add: get_device_def get_device_loop_end def_dev_eq sentinel_sizes)
qed

lemma no_such_device:
  "list_all (\<lambda>dn. nocase_strcmp ''no-such-device'' dn \<noteq> 0) (tl registry_names)"
  by code_simp

theorem get_device_unknown_name_witness:
  "get_device \<lparr>pass = PASS_1, constants = [], variables = [(DEV_VAR, 22)], LastDevice = 22,
       stderr = []\<rparr> (Some ''no-such-device'') =
     Inr (None, \<lparr>pass = PASS_1, constants = [],
       variables = [(DEV_VAR, 0), (FLASH_VAR, 4194304), (EEPROM_VAR, 65536), (RAM_VAR, 8388608)],
       LastDevice = 0, stderr = []\<rparr>)"
proof -
  have "\<forall>d \<in> set named_devices. \<forall>dn. name d = Some dn \<longrightarrow>
      nocase_strcmp ''no-such-device'' dn \<noteq> 0"
  proof (intro ballI allI impI)
    fix d dn assume "d \<in> set named_devices" "name d = Some dn"
    then have "dn \<in> set (tl registry_names)"
      by (force simp add: registry_names_def)
    with no_such_device show "nocase_strcmp ''no-such-device'' dn \<noteq> 0"
      by (simp add: list_all_iff)
  qed
  from get_device_unknown_name [OF this,
    of "\<lparr>pass = PASS_1, constants = [], variables = [(DEV_VAR, 22)], LastDevice = 22, stderr = []\<rparr>"]
  show ?thesis
    using var_names_distinct by (simp add: sentinel_sizes)
qed

text \<open>
  Claim C5. Let the entry at index \<open>i\<close> be a named device \<open>D\<close>. Called with \<open>D\<close>'s name as
  the table writes it, in upper case or in lower case, \<open>get_device\<close> returns \<open>D\<close>, leaves
  \<open>LastDevice\<close> at \<open>i\<close> and defines the four variables from \<open>D\<close>: \<open>__DEVICE__\<close> is \<open>i\<close>, and
  the sizes are \<open>D\<close>'s. The scan stops at \<open>D\<close> because no entry before it matches.
\<close>

theorem get_device_finds_device:
  assumes "0 < i" and "i < length device_list - 1" and "name (device_list ! i) = Some dn"
    and "x = dn \<or> x = uppercase dn \<or> x = lowercase dn"
  shows "get_device_loop x 1 = Inr (Some i) \<and>
    get_device s (Some x) =
     Inr (Some (device_list ! i),
       s\<lparr>LastDevice := i,
         variables :=
           AList.update RAM_VAR (ram_size (device_list ! i))
             (AList.update EEPROM_VAR (eeprom_size (device_list ! i))
               (AList.update FLASH_VAR (flash_size (device_list ! i))
                 (AList.update DEV_VAR (int i) (variables s))))\<rparr>)"
proof -
  have i: "0 < i" "i < 90" using assms(1,2) by (simp_all add: length_device_list)
  have dn: "dn = registry_names ! i"
    using assms(3) name_nth [OF i] by simp
  have low: "lowercase x = lowercase (registry_names ! i)"
    using assms(4) dn by (auto simp add: lowercase_uppercase lowercase_lowercase)
  have "\<forall>j. 1 \<le> j \<and> j < i \<longrightarrow> nocase_strcmp x (registry_names ! j) \<noteq> 0"
  proof (intro allI impI)
    fix j :: nat assume "1 \<le> j \<and> j < i"
    then have j: "0 < j" "j < 90" "j \<noteq> i" using i by simp_all
    with lowercase_names_inj [OF j(1,2) i] low
    show "nocase_strcmp x (registry_names ! j) \<noteq> 0"
      by (auto simp add: nocase_strcmp_iff)
  qed
  then have "get_device_loop x 1 = get_device_loop x i"
    using i by (intro get_device_loop_skip) simp_all
  also have "\<dots> = Inr (Some i)"
    using low by (simp add: get_device_loop_step [OF i] nocase_strcmp_iff)
  finally have scan: "get_device_loop x 1 = Inr (Some i)" .
  then show ?thesis
    using i by (simp add: get_device_def def_dev_eq)
qed

theorem get_device_finds_device_witness:
  "get_device \<lparr>pass = PASS_1, constants = [], variables = [], LastDevice = 0, stderr = []\<rparr>
       (Some ''ATTINY85'') =
     Inr (Some (device_list ! 22), \<lparr>pass = PASS_1, constants = [],
       variables = [(DEV_VAR, 22), (FLASH_VAR, 4096), (EEPROM_VAR, 512), (RAM_VAR, 512)],
       LastDevice = 22, stderr = []\<rparr>) \<and>
   get_device \<lparr>pass = PASS_1, constants = [], variables = [], LastDevice = 0, stderr = []\<rparr>
       (Some ''attiny85'') =
     Inr (Some (device_list ! 22), \<lparr>pass = PASS_1, constants = [],
       variables = [(DEV_VAR, 22), (FLASH_VAR, 4096), (EEPROM_VAR, 512), (RAM_VAR, 512)],
       LastDevice = 22, stderr = []\<rparr>) \<and>
   get_device \<lparr>pass = PASS_1, constants = [], variables = [], LastDevice = 0, stderr = []\<rparr>
       (Some ''ATtiny85'') =
     Inr (Some (device_list ! 22), \<lparr>pass = PASS_1, constants = [],
       variables = [(DEV_VAR, 22), (FLASH_VAR, 4096), (EEPROM_VAR, 512), (RAM_VAR, 512)],
       LastDevice = 22, stderr = []\<rparr>)"
proof -
  let ?s = "\<lparr>pass = PASS_1, constants = [], variables = [], LastDevice = 0, stderr = []\<rparr>"
  have up: "uppercase ''ATtiny85'' = ''ATTINY85''" and lo: "lowercase ''ATtiny85'' = ''attiny85''"
    by code_simp+
  show ?thesis
    using get_device_finds_device [of 22 "''ATtiny85''" "''ATTINY85''" ?s]
      get_device_finds_device [of 22 "''ATtiny85''" "''attiny85''" ?s]
      get_device_finds_device [of 22 "''ATtiny85''" "''ATtiny85''" ?s]
      var_names_distinct
    by (simp add: length_device_list device_22 up lo)
qed

end
